theory Spec2Isabelle
  imports Complex_Main "HOL-Library.AList"
begin

section \<open>Position ledger and order settlement of the crypto trading tools\<close>

text \<open>
  A shallow embedding of \<^verbatim>\<open>tools/crypto/position_tools.py\<close>,
  \<^verbatim>\<open>tools/crypto/ccxt_client.py\<close>, \<^verbatim>\<open>tools/crypto/price_tools.py\<close>
  (\<^verbatim>\<open>get_yesterday_date\<close>) and \<^verbatim>\<open>agent_tools/tool_trade_crypto.py\<close>.

  Conventions of the embedding:
  \<^item> a Python \<^verbatim>\<open>float\<close> is a \<^typ>\<open>real\<close>; \<open>run_order\<close> computes on them exactly, and
    \<open>run_order_in binary64\<close> with the rounding of IEEE 754 binary64; infinities and NaN
    are not modelled;
  \<^item> a Python \<^verbatim>\<open>dict\<close> is an association list in insertion order, looked up with
    \<^const>\<open>map_of\<close> and assigned with \<^const>\<open>AList.update\<close>;
  \<^item> an exception is a value \<open>Inl e\<close> of the sum type \<open>error + 'a\<close>;
  \<^item> the file system is a map from the agent's signature to the lines of its
    \<^verbatim>\<open>position.jsonl\<close>; a line is kept as what \<^verbatim>\<open>json.loads\<close> makes of it;
  \<^item> what the exchange, the clock and the ticker cache answer is an input
    (the record \<open>io\<close>): the functions are deterministic in it.
\<close>

subsection \<open>Exceptions\<close>

datatype error =
    JSONDecodeError
  | ValueError
  | OverflowError
  | RuntimeError
  | AttributeError
  | TypeError
  | ExchangeError string

subsection \<open>Strings: \<^verbatim>\<open>str.upper\<close>, \<^verbatim>\<open>str.lower\<close> on ASCII letters\<close>

definition ascii_lowercase :: string where
  "ascii_lowercase = ''abcdefghijklmnopqrstuvwxyz''"

definition ascii_uppercase :: string where
  "ascii_uppercase = ''ABCDEFGHIJKLMNOPQRSTUVWXYZ''"

definition upper_char :: "char \<Rightarrow> char" where
  "upper_char c = (case map_of (zip ascii_lowercase ascii_uppercase) c of None \<Rightarrow> c | Some u \<Rightarrow> u)"

definition lower_char :: "char \<Rightarrow> char" where
  "lower_char c = (case map_of (zip ascii_uppercase ascii_lowercase) c of None \<Rightarrow> c | Some l \<Rightarrow> l)"

definition upper :: "string \<Rightarrow> string" where
  "upper s = map upper_char s"

definition lower :: "string \<Rightarrow> string" where
  "lower s = map lower_char s"

text \<open>\<^verbatim>\<open>a or b\<close> on an optional string: \<^verbatim>\<open>None\<close> and the empty string are falsy.\<close>

definition str_or :: "string option \<Rightarrow> string \<Rightarrow> string" where
  "str_or a b = (case a of None \<Rightarrow> b | Some s \<Rightarrow> if s = [] then b else s)"

subsection \<open>Calendar days: \<^verbatim>\<open>get_yesterday_date\<close>\<close>

text \<open>
  \<^verbatim>\<open>datetime.strptime(s, "%Y-%m-%d")\<close> matches the regular expression
  \<^verbatim>\<open>(\d\d\d\d)-(1[0-2]|0[1-9]|[1-9])-(3[0-1]|[1-2]\d|0[1-9]|[1-9]| [1-9])\<close>
  against the whole string and then checks that the day exists; any failure is a
  \<^verbatim>\<open>ValueError\<close>. Only ASCII digits are modelled.
\<close>

definition digit_val :: "char \<Rightarrow> nat option" where
  "digit_val c = map_of (zip ''0123456789'' [0, 1, 2, 3, 4, 5, 6, 7, 8, 9]) c"

definition is_digit :: "char \<Rightarrow> bool" where
  "is_digit c = (digit_val c \<noteq> None)"

definition dv :: "char \<Rightarrow> nat" where
  "dv c = (case digit_val c of None \<Rightarrow> 0 | Some n \<Rightarrow> n)"

text \<open>The month field and what follows it; the alternatives in the order of the regex.\<close>

fun month_field :: "string \<Rightarrow> (nat \<times> string) option" where
  "month_field (a # b # r) =
     (if a = CHR ''1'' \<and> b \<in> set ''012'' then Some (10 + dv b, r)
      else if a = CHR ''0'' \<and> b \<in> set ''123456789'' then Some (dv b, r)
      else if a \<in> set ''123456789'' then Some (dv a, b # r)
      else None)"
| "month_field [a] = (if a \<in> set ''123456789'' then Some (dv a, []) else None)"
| "month_field [] = None"

text \<open>The day field, which must end the string.\<close>

fun day_field :: "string \<Rightarrow> nat option" where
  "day_field [a, b] =
     (if a = CHR ''3'' \<and> b \<in> set ''01'' then Some (30 + dv b)
      else if a \<in> set ''12'' \<and> is_digit b then Some (10 * dv a + dv b)
      else if a = CHR ''0'' \<and> b \<in> set ''123456789'' then Some (dv b)
      else if a = CHR '' '' \<and> b \<in> set ''123456789'' then Some (dv b)
      else None)"
| "day_field [a] = (if a \<in> set ''123456789'' then Some (dv a) else None)"
| "day_field s = None"

definition is_leap :: "nat \<Rightarrow> bool" where
  "is_leap y = (y mod 4 = 0 \<and> (y mod 100 \<noteq> 0 \<or> y mod 400 = 0))"

definition days_in_month :: "nat \<Rightarrow> nat \<Rightarrow> nat" where
  "days_in_month y m =
     (if m = 2 then (if is_leap y then 29 else 28)
      else if m = 4 \<or> m = 6 \<or> m = 9 \<or> m = 11 then 30 else 31)"

text \<open>A date is (year, month, day); \<^verbatim>\<open>datetime\<close> has years 1 to 9999.\<close>

type_synonym ymd = "nat \<times> nat \<times> nat"

fun strptime :: "string \<Rightarrow> error + ymd" where
  "strptime (y1 # y2 # y3 # y4 # dash # r) =
     (if is_digit y1 \<and> is_digit y2 \<and> is_digit y3 \<and> is_digit y4 \<and> dash = CHR ''-'' then
        (case month_field r of
           None \<Rightarrow> Inl ValueError
         | Some (m, r') \<Rightarrow>
             (case r' of
                [] \<Rightarrow> Inl ValueError
              | dash' # r'' \<Rightarrow>
                  if dash' \<noteq> CHR ''-'' then Inl ValueError
                  else
                    (case day_field r'' of
                       None \<Rightarrow> Inl ValueError
                     | Some d \<Rightarrow>
                         let y = 1000 * dv y1 + 100 * dv y2 + 10 * dv y3 + dv y4
                         in if 1 \<le> y \<and> d \<le> days_in_month y m then Inr (y, m, d)
                            else Inl ValueError)))
      else Inl ValueError)"
| "strptime s = Inl ValueError"

text \<open>\<^verbatim>\<open>today - timedelta(days=1)\<close>; before 0001-01-01 there is no date.\<close>

fun minus_one_day :: "ymd \<Rightarrow> error + ymd" where
  "minus_one_day (y, m, d) =
     (if 1 < d then Inr (y, m, d - 1)
      else if 1 < m then Inr (y, m - 1, days_in_month y (m - 1))
      else if 1 < y then Inr (y - 1, 12, 31)
      else Inl OverflowError)"

definition digit_char :: "nat \<Rightarrow> char" where
  "digit_char n = ''0123456789'' ! (n mod 10)"

text \<open>
  \<^verbatim>\<open>strftime("%Y-%m-%d")\<close>. CPython hands the format to the C library, whose
  \<^verbatim>\<open>%Y\<close> (glibc) writes the year in decimal without leading zeros, so the year 999
  is \<^verbatim>\<open>999\<close>; \<^verbatim>\<open>%m\<close> and \<^verbatim>\<open>%d\<close> are two digits.
\<close>

definition year_str :: "nat \<Rightarrow> string" where
  "year_str y =
     (if y < 10 then [digit_char y]
      else if y < 100 then [digit_char (y div 10), digit_char y]
      else if y < 1000 then [digit_char (y div 100), digit_char (y div 10), digit_char y]
      else [digit_char (y div 1000), digit_char (y div 100), digit_char (y div 10), digit_char y])"

fun strftime :: "ymd \<Rightarrow> string" where
  "strftime (y, m, d) =
     year_str y @
     [CHR ''-'', digit_char (m div 10), digit_char m,
      CHR ''-'', digit_char (d div 10), digit_char d]"

definition get_yesterday_date :: "string \<Rightarrow> error + string" where
  "get_yesterday_date today_date =
     (case strptime today_date of
        Inl e \<Rightarrow> Inl e
      | Inr today \<Rightarrow>
          (case minus_one_day today of
             Inl e \<Rightarrow> Inl e
           | Inr prev \<Rightarrow> Inr (strftime prev)))"

subsection \<open>Python values of a ticker\<close>

datatype pyval =
    PyNone
  | PyBool bool
  | PyNum real
  | PyStr string
  | PyDict "(string \<times> pyval) list"

type_synonym ticker = "(string \<times> pyval) list"

text \<open>Truth value testing: \<^verbatim>\<open>None\<close>, \<^verbatim>\<open>False\<close>, zero, the empty string and the empty dict are falsy.\<close>

fun truthy :: "pyval \<Rightarrow> bool" where
  "truthy PyNone = False"
| "truthy (PyBool b) = b"
| "truthy (PyNum x) = (x \<noteq> 0)"
| "truthy (PyStr s) = (s \<noteq> [])"
| "truthy (PyDict d) = (d \<noteq> [])"

text \<open>\<^verbatim>\<open>d.get(k, default)\<close>; \<^verbatim>\<open>d.get(k)\<close> is \<open>dict_get d k PyNone\<close>.\<close>

definition dict_get :: "(string \<times> pyval) list \<Rightarrow> string \<Rightarrow> pyval \<Rightarrow> pyval" where
  "dict_get d k dflt = (case map_of d k of None \<Rightarrow> dflt | Some v \<Rightarrow> v)"

subsection \<open>Configuration and the outside world\<close>

text \<open>
  The module constants read from the environment at import, and the builtin
  \<^verbatim>\<open>float\<close> on a string (\<open>None\<close> where it raises \<^verbatim>\<open>ValueError\<close>).
\<close>

record env =
  BASE_SYMBOL :: string
  DEFAULT_PAIR :: string
  DEFAULT_MODE :: string
  float_of_str :: "string \<Rightarrow> real option"

type_synonym venue_order = string

text \<open>
  What the outside answers during one call: \<open>fetch_ticker\<close> is the outcome of
  \<^verbatim>\<open>fetch_ticker(symbol=pair, mode=mode)\<close> (from the cache or from the exchange, or the
  exchange's exception), \<open>time_time\<close> the reading of \<^verbatim>\<open>time.time()\<close>, and
  \<open>create_order\<close> the outcome of \<^verbatim>\<open>exchange.create_order(...)\<close> on the live venue.
\<close>

record io =
  fetch_ticker :: "string \<Rightarrow> string option \<Rightarrow> error + ticker"
  time_time :: real
  create_order :: "error + venue_order"

subsection \<open>Exchange gateway: \<^verbatim>\<open>get_last_price\<close>, \<^verbatim>\<open>execute_order\<close>\<close>

fun py_float :: "(string \<Rightarrow> real option) \<Rightarrow> pyval \<Rightarrow> error + real" where
  "py_float f (PyNum x) = Inr x"
| "py_float f (PyBool b) = Inr (if b then 1 else 0)"
| "py_float f (PyStr s) = (case f s of None \<Rightarrow> Inl ValueError | Some x \<Rightarrow> Inr x)"
| "py_float f PyNone = Inl TypeError"
| "py_float f (PyDict d) = Inl TypeError"

text \<open>
  \<^verbatim>\<open>ticker.get("last") or ticker.get("close") or ticker.get("info", {}).get("lastPrice")\<close>:
  \<^verbatim>\<open>or\<close> returns its first truthy operand, else the last one, and evaluates the
  third operand only when the first two are falsy.
\<close>

definition last_or_close_or_info :: "ticker \<Rightarrow> error + pyval" where
  "last_or_close_or_info ticker =
     (if truthy (dict_get ticker ''last'' PyNone) then Inr (dict_get ticker ''last'' PyNone)
      else if truthy (dict_get ticker ''close'' PyNone) then Inr (dict_get ticker ''close'' PyNone)
      else
        (case dict_get ticker ''info'' (PyDict []) of
           PyDict info \<Rightarrow> Inr (dict_get info ''lastPrice'' PyNone)
         | _ \<Rightarrow> Inl AttributeError))"

definition get_last_price :: "env \<Rightarrow> io \<Rightarrow> string option \<Rightarrow> string option \<Rightarrow> error + real" where
  "get_last_price env io symbol mode =
     (case fetch_ticker io (upper (str_or symbol (DEFAULT_PAIR env))) mode of
        Inl e \<Rightarrow> Inl e
      | Inr ticker \<Rightarrow>
          (case last_or_close_or_info ticker of
             Inl e \<Rightarrow> Inl e
           | Inr price \<Rightarrow>
               if price = PyNone then Inl RuntimeError
               else py_float (float_of_str env) price))"

text \<open>
  The fill record: the paper dict
  \<^verbatim>\<open>{mode: "paper", symbol, side, amount, fill_price, order_type, timestamp}\<close>
  or the live dict \<^verbatim>\<open>{mode: "live", symbol, side, amount, order}\<close>.
\<close>

datatype fill_record =
    PaperFill string string real real string real
  | LiveFill string string real venue_order

definition execute_order ::
  "env \<Rightarrow> io \<Rightarrow> string \<Rightarrow> real \<Rightarrow> string option \<Rightarrow> string \<Rightarrow> real option \<Rightarrow> string option
     \<Rightarrow> error + fill_record" where
  "execute_order env io side amount symbol order_type price mode =
     (let pair = upper (str_or symbol (DEFAULT_PAIR env));
          trade_mode = lower (str_or mode (DEFAULT_MODE env))
      in case (case price of
                 None \<Rightarrow> get_last_price env io (Some pair) (Some trade_mode)
               | Some p \<Rightarrow> Inr p) of
           Inl e \<Rightarrow> Inl e
         | Inr px \<Rightarrow>
             if trade_mode \<noteq> ''live'' then
               Inr (PaperFill pair side amount px order_type (time_time io))
             else
               (case create_order io of
                  Inl e \<Rightarrow> Inl e
                | Inr order \<Rightarrow> Inr (LiveFill pair side amount order)))"

text \<open>\<^verbatim>\<open>order.get("fill_price", px)\<close>: only the paper dict has the key.\<close>

fun order_fill_price :: "fill_record \<Rightarrow> real \<Rightarrow> real" where
  "order_fill_price (PaperFill pair side amount fill_price order_type ts) px = fill_price"
| "order_fill_price (LiveFill pair side amount order) px = px"

subsection \<open>The ledger file\<close>

type_synonym position = "(string \<times> real) list"

record this_action =
  a_action :: string
  a_symbol :: string
  a_amount :: real
  a_fill_price :: "real option"

text \<open>
  A parsed line is a JSON object; a key that is absent is \<open>None\<close>. The records this
  program writes have every key but \<^verbatim>\<open>order\<close>, which a no-trade record lacks.
\<close>

record ledger_record =
  r_date :: "string option"
  r_id :: "int option"
  r_this_action :: "this_action option"
  r_positions :: "position option"
  r_order :: "fill_record option"

text \<open>
  A line of \<^verbatim>\<open>position.jsonl\<close>: \<open>Blank\<close> when \<^verbatim>\<open>line.strip()\<close> is empty, \<open>Corrupt\<close>
  when \<^verbatim>\<open>json.loads(line)\<close> raises, else the object it returns.
\<close>

datatype line = Blank | Corrupt | Rec ledger_record

record state =
  files :: "string \<rightharpoonup> line list"
  IF_TRADE :: bool

text \<open>\<^verbatim>\<open>record.get("id", -1)\<close> and \<^verbatim>\<open>record.get("positions", {})\<close>.\<close>

definition rec_id :: "ledger_record \<Rightarrow> int" where
  "rec_id r = (case r_id r of None \<Rightarrow> - 1 | Some i \<Rightarrow> i)"

definition rec_positions :: "ledger_record \<Rightarrow> position" where
  "rec_positions r = (case r_positions r of None \<Rightarrow> [] | Some p \<Rightarrow> p)"

text \<open>
  One pass of \<^verbatim>\<open>for line in fin\<close> over the file, carrying
  \<open>(latest_positions, max_id)\<close>.
\<close>

fun scan :: "string \<Rightarrow> line list \<Rightarrow> position \<times> int \<Rightarrow> error + position \<times> int" where
  "scan d [] acc = Inr acc"
| "scan d (Blank # ls) acc = scan d ls acc"
| "scan d (Corrupt # ls) acc = Inl JSONDecodeError"
| "scan d (Rec r # ls) (latest, max_id) =
     (if r_date r = Some d then
        (if rec_id r > max_id then scan d ls (rec_positions r, rec_id r)
         else scan d ls (latest, max_id))
      else scan d ls (latest, max_id))"

definition get_latest_position ::
  "string \<Rightarrow> string \<Rightarrow> (string \<rightharpoonup> line list) \<Rightarrow> error + position \<times> int" where
  "get_latest_position today_date signature fs =
     (case fs signature of
        None \<Rightarrow> Inr ([], - 1)
      | Some ls \<Rightarrow>
          (case scan today_date ls ([], - 1) of
             Inl e \<Rightarrow> Inl e
           | Inr (latest_positions, max_id_today) \<Rightarrow>
               if max_id_today \<ge> 0 then Inr (latest_positions, max_id_today)
               else
                 (case get_yesterday_date today_date of
                    Inl e \<Rightarrow> Inl e
                  | Inr prev_date \<Rightarrow> scan prev_date ls ([], - 1))))"

definition get_today_init_position ::
  "string \<Rightarrow> string \<Rightarrow> (string \<rightharpoonup> line list) \<Rightarrow> error + position" where
  "get_today_init_position today_date signature fs =
     (case get_yesterday_date today_date of
        Inl e \<Rightarrow> Inl e
      | Inr prev_date \<Rightarrow>
          (case get_latest_position prev_date signature fs of
             Inl e \<Rightarrow> Inl e
           | Inr (positions, i) \<Rightarrow> Inr positions))"

text \<open>Opening the file in mode \<^verbatim>\<open>"a"\<close> creates it; one line is written at its end.\<close>

definition append_record :: "string \<Rightarrow> ledger_record \<Rightarrow> (string \<rightharpoonup> line list) \<Rightarrow> (string \<rightharpoonup> line list)" where
  "append_record signature payload fs =
     fs(signature \<mapsto> (case fs signature of None \<Rightarrow> [] | Some ls \<Rightarrow> ls) @ [Rec payload])"

definition add_no_trade_record :: "string \<Rightarrow> string \<Rightarrow> state \<Rightarrow> (error + unit) \<times> state" where
  "add_no_trade_record today_date signature st =
     (case get_latest_position today_date signature (files st) of
        Inl e \<Rightarrow> (Inl e, st)
      | Inr (positions, max_id) \<Rightarrow>
          (Inr (),
           st\<lparr>files := append_record signature
                 \<lparr>r_date = Some today_date,
                  r_id = Some (max_id + 1),
                  r_this_action = Some \<lparr>a_action = ''no_trade'', a_symbol = [], a_amount = 0,
                                         a_fill_price = None\<rparr>,
                  r_positions = Some positions,
                  r_order = None\<rparr> (files st)\<rparr>))"

subsection \<open>Settlement: \<^verbatim>\<open>_run_order\<close>, \<^verbatim>\<open>buy\<close>, \<^verbatim>\<open>sell\<close>\<close>

text \<open>\<^verbatim>\<open>position.setdefault(k, v)\<close> and \<^verbatim>\<open>positions.get(k, 0.0)\<close>.\<close>

definition setdefault :: "string \<Rightarrow> real \<Rightarrow> position \<Rightarrow> position" where
  "setdefault k v p = (case map_of p k of None \<Rightarrow> p @ [(k, v)] | Some x \<Rightarrow> p)"

definition pos_get :: "position \<Rightarrow> string \<Rightarrow> real" where
  "pos_get p k = (case map_of p k of None \<Rightarrow> 0 | Some x \<Rightarrow> x)"

definition ensure_symbol :: "env \<Rightarrow> position \<Rightarrow> position" where
  "ensure_symbol env position = setdefault ''CASH'' 0 (setdefault (BASE_SYMBOL env) 0 position)"

text \<open>
  The position \<^verbatim>\<open>_run_order\<close> works on: seeded when empty with the dict literal
  \<^verbatim>\<open>{"CASH": 0.0, BASE_SYMBOL: 0.0}\<close> (one key when the base symbol is \<^verbatim>\<open>CASH\<close>), then
  completed.
\<close>

definition seeded :: "env \<Rightarrow> position \<Rightarrow> position" where
  "seeded env positions =
     ensure_symbol env
       (if positions = [] then AList.update (BASE_SYMBOL env) 0 [(''CASH'', 0)] else positions)"

text \<open>What a tool call returns: the new position, or a dict with an \<^verbatim>\<open>error\<close> key.\<close>

datatype reply =
    Positions position
  | ErrorPayload string "(string \<times> real) list"

text \<open>
  \<^verbatim>\<open>_run_order\<close>. \<open>io1\<close> is the outside at the call \<^verbatim>\<open>get_last_price()\<close>, \<open>io2\<close> the
  outside at the call \<^verbatim>\<open>execute_order(...)\<close>. The exclusive lock taken around the
  body is not modelled: a call is one atomic step on the state.
\<close>

definition run_order ::
  "env \<Rightarrow> io \<Rightarrow> io \<Rightarrow> string \<Rightarrow> real \<Rightarrow> string \<Rightarrow> string \<Rightarrow> string \<Rightarrow> state
     \<Rightarrow> (error + reply) \<times> state" where
  "run_order env io1 io2 side amount signature today_date order_type st =
     (case get_latest_position today_date signature (files st) of
        Inl e \<Rightarrow> (Inl e, st)
      | Inr (positions0, last_id) \<Rightarrow>
          let positions = seeded env positions0 in
          (case get_last_price env io1 None None of
             Inl e \<Rightarrow> (Inl e, st)
           | Inr px \<Rightarrow>
               (case execute_order env io2 side amount None order_type None None of
                  Inl e \<Rightarrow> (Inl e, st)
                | Inr order \<Rightarrow>
                    let fill_price = order_fill_price order px;
                        commit = (\<lambda>positions'.
                          (Inr (Positions positions'),
                           st\<lparr>files := append_record signature
                                 \<lparr>r_date = Some today_date,
                                  r_id = Some (last_id + 1),
                                  r_this_action = Some \<lparr>a_action = side,
                                                         a_symbol = BASE_SYMBOL env,
                                                         a_amount = amount,
                                                         a_fill_price = Some fill_price\<rparr>,
                                  r_positions = Some positions',
                                  r_order = Some order\<rparr> (files st),
                              IF_TRADE := True\<rparr>))
                    in
                      if side = ''buy'' then
                        (let cost = fill_price * amount;
                             cash = pos_get positions ''CASH'' - cost
                         in if cash < 0 then
                              (Inr (ErrorPayload ''Insufficient cash for BTC buy''
                                      [(''required_cash'', cost),
                                       (''cash_available'', pos_get positions ''CASH'')]), st)
                            else
                              (let positions1 = AList.update ''CASH'' cash positions;
                                   positions2 = AList.update (BASE_SYMBOL env)
                                                  (pos_get positions1 (BASE_SYMBOL env) + amount) positions1
                               in commit positions2))
                      else
                        (let holding = pos_get positions (BASE_SYMBOL env)
                         in if holding < amount then
                              (Inr (ErrorPayload ''Insufficient BTC to sell''
                                      [(''holding'', holding), (''attempted'', amount)]), st)
                            else
                              (let proceeds = fill_price * amount;
                                   positions1 = AList.update (BASE_SYMBOL env) (holding - amount) positions;
                                   positions2 = AList.update ''CASH''
                                                  (pos_get positions1 ''CASH'' + proceeds) positions1
                               in commit positions2)))))"

text \<open>
  \<^verbatim>\<open>buy\<close> and \<^verbatim>\<open>sell\<close>: \<open>cfg_signature\<close> and \<open>cfg_today\<close> are what
  \<^verbatim>\<open>get_config_value("SIGNATURE")\<close> and \<^verbatim>\<open>get_config_value("TODAY_DATE")\<close> return.
\<close>

definition falsy_str :: "string option \<Rightarrow> bool" where
  "falsy_str s = (case s of None \<Rightarrow> True | Some x \<Rightarrow> x = [])"

definition buy ::
  "env \<Rightarrow> io \<Rightarrow> io \<Rightarrow> string option \<Rightarrow> string option \<Rightarrow> real \<Rightarrow> state \<Rightarrow> (error + reply) \<times> state" where
  "buy env io1 io2 cfg_signature cfg_today amount st =
     (if falsy_str cfg_signature \<or> falsy_str cfg_today then
        (Inr (ErrorPayload ''SIGNATURE or TODAY_DATE not set'' []), st)
      else if amount \<le> 0 then (Inr (ErrorPayload ''amount must be positive'' []), st)
      else run_order env io1 io2 ''buy'' amount (the cfg_signature) (the cfg_today) ''market'' st)"

definition sell ::
  "env \<Rightarrow> io \<Rightarrow> io \<Rightarrow> string option \<Rightarrow> string option \<Rightarrow> real \<Rightarrow> state \<Rightarrow> (error + reply) \<times> state" where
  "sell env io1 io2 cfg_signature cfg_today amount st =
     (if falsy_str cfg_signature \<or> falsy_str cfg_today then
        (Inr (ErrorPayload ''SIGNATURE or TODAY_DATE not set'' []), st)
      else if amount \<le> 0 then (Inr (ErrorPayload ''amount must be positive'' []), st)
      else run_order env io1 io2 ''sell'' amount (the cfg_signature) (the cfg_today) ''market'' st)"

subsection \<open>Float arithmetic\<close>

text \<open>
  The quantities of a position are Python floats, that is IEEE 754 binary64 numbers,
  and \<^verbatim>\<open>*\<close>, \<^verbatim>\<open>+\<close> and \<^verbatim>\<open>-\<close> on them round the exact result to the nearest binary64
  number, ties to the even significand. \<open>run_order\<close> above computes in exact
  arithmetic. \<open>run_order_in\<close> below is the same function with the multiplication,
  the addition and the subtraction of \<^verbatim>\<open>_run_order\<close> taken from a record, so that it
  can be read in exact arithmetic (\<open>exact\<close>) and in binary64 (\<open>binary64\<close>).
\<close>

record arith =
  f_mul :: "real \<Rightarrow> real \<Rightarrow> real"
  f_add :: "real \<Rightarrow> real \<Rightarrow> real"
  f_sub :: "real \<Rightarrow> real \<Rightarrow> real"

definition exact :: arith where
  "exact = \<lparr>f_mul = (\<lambda>x y. x * y), f_add = (\<lambda>x y. x + y), f_sub = (\<lambda>x y. x - y)\<rparr>"

text \<open>The nearest integer, a tie going to the even one.\<close>

definition round_half_even :: "real \<Rightarrow> int" where
  "round_half_even x =
     (let n = \<lfloor>x\<rfloor>; r = x - of_int n
      in if r < 1 / 2 then n else if 1 / 2 < r then n + 1 else if even n then n else n + 1)"

text \<open>
  The binary exponent \<open>e\<close> of a number other than zero, \<open>2 ^ e \<le> \<bar>x\<bar> < 2 ^ (e + 1)\<close>:
  the halvings that bring a number from 1 on below 2, or minus the doublings that
  bring a positive number below 1 up to 1.
\<close>

function halvings :: "real \<Rightarrow> nat" where
  "halvings x = (if x < 2 then 0 else Suc (halvings (x / 2)))"
  by pat_completeness auto
termination
proof (relation "measure (\<lambda>x. nat \<lceil>x\<rceil>)")
  show "wf (measure (\<lambda>x. nat \<lceil>x\<rceil>))" by simp
next
  fix x :: real
  assume "\<not> x < 2"
  then have "x / 2 \<le> x - 1" by simp
  then have "\<lceil>x / 2\<rceil> \<le> \<lceil>x - 1\<rceil>" by (rule ceiling_mono)
  moreover have "\<lceil>x - 1\<rceil> = \<lceil>x\<rceil> - 1" by simp
  moreover from \<open>\<not> x < 2\<close> have "2 \<le> \<lceil>x\<rceil>" by (simp add: le_ceiling_iff)
  ultimately have "nat \<lceil>x / 2\<rceil> < nat \<lceil>x\<rceil>" by linarith
  then show "(x / 2, x) \<in> measure (\<lambda>x. nat \<lceil>x\<rceil>)" by simp
qed

function doublings :: "real \<Rightarrow> nat" where
  "doublings x = (if x \<le> 0 \<or> 1 \<le> x then 0 else Suc (doublings (2 * x)))"
  by pat_completeness auto
termination
proof (relation "measure (\<lambda>x. nat \<lceil>1 / x\<rceil>)")
  show "wf (measure (\<lambda>x. nat \<lceil>1 / x\<rceil>))" by simp
next
  fix x :: real
  assume "\<not> (x \<le> 0 \<or> 1 \<le> x)"
  then have x: "0 < x" "x < 1" by simp_all
  define y where "y = 1 / x"
  from x have y: "1 < y" by (simp add: y_def)
  then have two: "2 \<le> \<lceil>y\<rceil>" by (simp add: le_ceiling_iff)
  have half: "1 / (2 * x) = y / 2" by (simp add: y_def)
  have "\<lceil>y / 2\<rceil> < \<lceil>y\<rceil>"
  proof (cases "2 \<le> y")
    case True
    then have "y / 2 \<le> y - 1" by simp
    then have "\<lceil>y / 2\<rceil> \<le> \<lceil>y - 1\<rceil>" by (rule ceiling_mono)
    moreover have "\<lceil>y - 1\<rceil> = \<lceil>y\<rceil> - 1" by simp
    ultimately show ?thesis by linarith
  next
    case False
    then have "y / 2 \<le> 1" by simp
    then have "\<lceil>y / 2\<rceil> \<le> 1" by (simp add: ceiling_le_iff)
    with two show ?thesis by linarith
  qed
  with two have "nat \<lceil>y / 2\<rceil> < nat \<lceil>y\<rceil>" by linarith
  then show "(2 * x, x) \<in> measure (\<lambda>x. nat \<lceil>1 / x\<rceil>)"
    by (simp add: half) (simp add: y_def)
qed

definition exponent :: "real \<Rightarrow> int" where
  "exponent x = (if 1 \<le> \<bar>x\<bar> then int (halvings \<bar>x\<bar>) else - int (doublings \<bar>x\<bar>))"

definition pow2 :: "int \<Rightarrow> real" where
  "pow2 k = (if 0 \<le> k then 2 ^ nat k else 1 / 2 ^ nat (- k))"

text \<open>
  Rounding to binary64: 53 significant bits, so the spacing at exponent \<open>e\<close> is
  \<open>2 ^ (e - 52)\<close>, and below the smallest normal exponent -1022 the spacing stays
  \<open>2 ^ -1074\<close>. A result beyond the largest finite binary64 number, which the machine
  turns into an infinity, is not modelled, nor are NaN and the sign of zero.
\<close>

definition fl :: "real \<Rightarrow> real" where
  "fl x = (let k = max (exponent x) (- 1022) - 52
           in of_int (round_half_even (x / pow2 k)) * pow2 k)"

definition binary64 :: arith where
  "binary64 = \<lparr>f_mul = (\<lambda>x y. fl (x * y)), f_add = (\<lambda>x y. fl (x + y)),
               f_sub = (\<lambda>x y. fl (x - y))\<rparr>"

text \<open>
  \<^verbatim>\<open>_run_order\<close> in the arithmetic \<open>ar\<close>. The comparisons \<^verbatim>\<open>cash < 0\<close> and
  \<^verbatim>\<open>holding < amount\<close> are exact on floats.
\<close>

definition run_order_in ::
  "arith \<Rightarrow> env \<Rightarrow> io \<Rightarrow> io \<Rightarrow> string \<Rightarrow> real \<Rightarrow> string \<Rightarrow> string \<Rightarrow> string \<Rightarrow> state
     \<Rightarrow> (error + reply) \<times> state" where
  "run_order_in ar env io1 io2 side amount signature today_date order_type st =
     (case get_latest_position today_date signature (files st) of
        Inl e \<Rightarrow> (Inl e, st)
      | Inr (positions0, last_id) \<Rightarrow>
          let positions = seeded env positions0 in
          (case get_last_price env io1 None None of
             Inl e \<Rightarrow> (Inl e, st)
           | Inr px \<Rightarrow>
               (case execute_order env io2 side amount None order_type None None of
                  Inl e \<Rightarrow> (Inl e, st)
                | Inr order \<Rightarrow>
                    let fill_price = order_fill_price order px;
                        commit = (\<lambda>positions'.
                          (Inr (Positions positions'),
                           st\<lparr>files := append_record signature
                                 \<lparr>r_date = Some today_date,
                                  r_id = Some (last_id + 1),
                                  r_this_action = Some \<lparr>a_action = side,
                                                         a_symbol = BASE_SYMBOL env,
                                                         a_amount = amount,
                                                         a_fill_price = Some fill_price\<rparr>,
                                  r_positions = Some positions',
                                  r_order = Some order\<rparr> (files st),
                              IF_TRADE := True\<rparr>))
                    in
                      if side = ''buy'' then
                        (let cost = f_mul ar fill_price amount;
                             cash = f_sub ar (pos_get positions ''CASH'') cost
                         in if cash < 0 then
                              (Inr (ErrorPayload ''Insufficient cash for BTC buy''
                                      [(''required_cash'', cost),
                                       (''cash_available'', pos_get positions ''CASH'')]), st)
                            else
                              (let positions1 = AList.update ''CASH'' cash positions;
                                   positions2 = AList.update (BASE_SYMBOL env)
                                                  (f_add ar (pos_get positions1 (BASE_SYMBOL env)) amount)
                                                  positions1
                               in commit positions2))
                      else
                        (let holding = pos_get positions (BASE_SYMBOL env)
                         in if holding < amount then
                              (Inr (ErrorPayload ''Insufficient BTC to sell''
                                      [(''holding'', holding), (''attempted'', amount)]), st)
                            else
                              (let proceeds = f_mul ar fill_price amount;
                                   positions1 = AList.update (BASE_SYMBOL env)
                                                  (f_sub ar holding amount) positions;
                                   positions2 = AList.update ''CASH''
                                                  (f_add ar (pos_get positions1 ''CASH'') proceeds)
                                                  positions1
                               in commit positions2)))))"

text \<open>
  The operations of a settlement of \<open>amount\<close> at \<open>fill\<close>, from the quantities \<open>cash\<close>
  and \<open>held\<close>, all return the exact result.
\<close>

definition rounds_nothing :: "arith \<Rightarrow> real \<Rightarrow> real \<Rightarrow> real \<Rightarrow> real \<Rightarrow> bool" where
  "rounds_nothing ar cash held fill amount \<longleftrightarrow>
     f_mul ar fill amount = fill * amount
     \<and> f_sub ar cash (fill * amount) = cash - fill * amount
     \<and> f_add ar cash (fill * amount) = cash + fill * amount
     \<and> f_add ar held amount = held + amount
     \<and> f_sub ar held amount = held - amount"

subsection \<open>The ledger as the specification describes it\<close>

text \<open>The records of a file, in file order, and those of one date.\<close>

fun parsed :: "line list \<Rightarrow> ledger_record list" where
  "parsed [] = []"
| "parsed (Rec r # ls) = r # parsed ls"
| "parsed (l # ls) = parsed ls"

definition on_date :: "string \<Rightarrow> line list \<Rightarrow> ledger_record list" where
  "on_date d ls = filter (\<lambda>r. r_date r = Some d) (parsed ls)"

text \<open>
  The specification's selection: among the given records, the one with the maximum
  \<^verbatim>\<open>id\<close> (the first in file order, should several carry it), as
  \<open>(positions, id)\<close>.
\<close>

definition max_id_record :: "ledger_record list \<Rightarrow> ledger_record option" where
  "max_id_record rs = find (\<lambda>r. rec_id r = Max (set (map rec_id rs))) rs"

definition select_latest :: "ledger_record list \<Rightarrow> position \<times> int" where
  "select_latest rs =
     (case max_id_record rs of None \<Rightarrow> ([], - 1) | Some r \<Rightarrow> (rec_positions r, rec_id r))"

text \<open>
  The specification's \<open>latest\<close>: the requested date, else the preceding calendar day,
  else the empty position and \<open>-1\<close>.
\<close>

definition latest_spec :: "string \<Rightarrow> string \<Rightarrow> line list \<Rightarrow> position \<times> int" where
  "latest_spec today_date prev_date ls =
     (if on_date today_date ls \<noteq> [] then select_latest (on_date today_date ls)
      else if on_date prev_date ls \<noteq> [] then select_latest (on_date prev_date ls)
      else ([], - 1))"

text \<open>A well-formed file: every line parses, and every record has an \<^verbatim>\<open>id\<close> from 0 on.\<close>

definition no_corrupt :: "line list \<Rightarrow> bool" where
  "no_corrupt ls = (Corrupt \<notin> set ls)"

definition ids_nonneg :: "line list \<Rightarrow> bool" where
  "ids_nonneg ls = list_all (\<lambda>r. 0 \<le> rec_id r) (parsed ls)"

text \<open>The ids of one date in file order, and what it is for them to have no gap.\<close>

definition ids_on :: "string \<Rightarrow> line list \<Rightarrow> int list" where
  "ids_on d ls = map rec_id (on_date d ls)"

fun consecutive :: "int list \<Rightarrow> bool" where
  "consecutive [] = True"
| "consecutive [x] = True"
| "consecutive (x # y # ys) = (y = x + 1 \<and> consecutive (y # ys))"

definition ids_ok :: "string \<Rightarrow> line list \<Rightarrow> bool" where
  "ids_ok d ls = (consecutive (ids_on d ls) \<and> list_all (\<lambda>i. 0 \<le> i) (ids_on d ls))"

definition ledger :: "state \<Rightarrow> string \<Rightarrow> line list" where
  "ledger st signature = (case files st signature of None \<Rightarrow> [] | Some ls \<Rightarrow> ls)"

subsection \<open>Sequences of calls\<close>

text \<open>
  The three operations that write the ledger, each with what the outside answers
  during the call.
\<close>

datatype call =
    BuyCall io io "string option" "string option" real
  | SellCall io io "string option" "string option" real
  | NoTradeCall string string

fun step :: "env \<Rightarrow> call \<Rightarrow> state \<Rightarrow> state" where
  "step env (BuyCall io1 io2 sg d amount) st = snd (buy env io1 io2 sg d amount st)"
| "step env (SellCall io1 io2 sg d amount) st = snd (sell env io1 io2 sg d amount st)"
| "step env (NoTradeCall d sg) st = snd (add_no_trade_record d sg st)"

fun run :: "env \<Rightarrow> call list \<Rightarrow> state \<Rightarrow> state" where
  "run env [] st = st"
| "run env (c # cs) st = run env cs (step env c st)"

subsection \<open>Sample data\<close>

definition btc_env :: env where
  "btc_env = \<lparr>BASE_SYMBOL = ''BTC'', DEFAULT_PAIR = ''BTC/USDT'', DEFAULT_MODE = ''paper'',
              float_of_str = (\<lambda>s. None)\<rparr>"

text \<open>An outside whose ticker has the given last price and whose clock reads \<open>t\<close>.\<close>

definition quote_io :: "real \<Rightarrow> real \<Rightarrow> io" where
  "quote_io p t = \<lparr>fetch_ticker = (\<lambda>pair mode. Inr [(''last'', PyNum p)]), time_time = t,
                   create_order = Inl (ExchangeError ''no venue'')\<rparr>"

definition fresh :: state where
  "fresh = \<lparr>files = Map.empty, IF_TRADE = False\<rparr>"

definition snapshot :: "string \<Rightarrow> int \<Rightarrow> position \<Rightarrow> line" where
  "snapshot d i p = Rec \<lparr>r_date = Some d, r_id = Some i, r_this_action = None,
                         r_positions = Some p, r_order = None\<rparr>"

section \<open>Properties\<close>

subsection \<open>Evaluation\<close>

lemmas string_defs =
  upper_def lower_def upper_char_def lower_char_def ascii_lowercase_def ascii_uppercase_def str_or_def

lemmas date_defs =
  get_yesterday_date_def digit_val_def is_digit_def dv_def is_leap_def days_in_month_def digit_char_def
  year_str_def

lemmas gateway_defs =
  get_last_price_def execute_order_def last_or_close_or_info_def dict_get_def

lemmas ledger_defs =
  get_latest_position_def append_record_def rec_id_def rec_positions_def

lemmas settle_defs =
  run_order_def seeded_def ensure_symbol_def setdefault_def pos_get_def falsy_str_def Let_def

lemmas sample_defs =
  btc_env_def quote_io_def fresh_def snapshot_def

subsection \<open>Scenario A: a first buy\<close>

text \<open>
  C1 (as the claim states it, refuted). A fresh agent has no ledger file, so
  \<^verbatim>\<open>_run_order\<close> seeds the position with \<^verbatim>\<open>CASH: 0\<close>: \<^verbatim>\<open>buy(0.1)\<close> at the fill
  price 50000 needs 5000, has 0, and is rejected; nothing is appended.
\<close>

theorem buy_fresh_agent_rejected:
  "buy btc_env (quote_io 50000 0) (quote_io 50000 0) (Some ''agent'') (Some ''2024-01-02'') (1 / 10) fresh
     = (Inr (ErrorPayload ''Insufficient cash for BTC buy''
               [(''required_cash'', 5000), (''cash_available'', 0)]), fresh)
   \<and> fst (buy btc_env (quote_io 50000 0) (quote_io 50000 0) (Some ''agent'') (Some ''2024-01-02'')
            (1 / 10) fresh)
     \<noteq> Inr (Positions [(''CASH'', 5000), (''BTC'', 1 / 10)])"
  by (simp add: buy_def settle_defs ledger_defs gateway_defs string_defs sample_defs)

text \<open>
  C1 (amended). With no ledger file the buy of 0.1 at the fill price 50000 is rejected
  with required cash 5000 and available cash 0, and the state is unchanged. When the
  latest snapshot is \<^verbatim>\<open>{CASH: 10000, BTC: 0}\<close> with last id \<open>k\<close>, the same buy succeeds:
  it returns \<^verbatim>\<open>{CASH: 5000, BTC: 0.1}\<close>, appends one record with id \<open>k + 1\<close> and sets
  the trade flag.
\<close>

theorem buy_scenario_A:
  assumes cfg: "sg \<noteq> []" "d \<noteq> []"
    and px: "get_last_price env io1 None None = Inr px"
    and order: "execute_order env io2 ''buy'' (1 / 10) None ''market'' None None = Inr order"
    and fill: "order_fill_price order px = 50000"
  shows
    "(files st sg = None \<longrightarrow>
        buy env io1 io2 (Some sg) (Some d) (1 / 10) st
          = (Inr (ErrorPayload ''Insufficient cash for BTC buy''
                    [(''required_cash'', 5000), (''cash_available'', 0)]), st))
     \<and> (BASE_SYMBOL env = ''BTC''
          \<and> get_latest_position d sg (files st) = Inr ([(''CASH'', 10000), (''BTC'', 0)], k) \<longrightarrow>
        buy env io1 io2 (Some sg) (Some d) (1 / 10) st
          = (Inr (Positions [(''CASH'', 5000), (''BTC'', 1 / 10)]),
             st\<lparr>files := append_record sg
                   \<lparr>r_date = Some d, r_id = Some (k + 1),
                    r_this_action = Some \<lparr>a_action = ''buy'', a_symbol = ''BTC'', a_amount = 1 / 10,
                                           a_fill_price = Some 50000\<rparr>,
                    r_positions = Some [(''CASH'', 5000), (''BTC'', 1 / 10)],
                    r_order = Some order\<rparr> (files st),
                IF_TRADE := True\<rparr>))"
  using assms
  by (simp add: buy_def settle_defs get_latest_position_def)

theorem buy_scenario_A_witness:
  "buy btc_env (quote_io 50000 0) (quote_io 50000 7) (Some ''agent'') (Some ''2024-01-02'') (1 / 10)
       \<lparr>files = [''agent'' \<mapsto> [snapshot ''2024-01-01'' 0 [(''CASH'', 10000), (''BTC'', 0)]]],
        IF_TRADE = False\<rparr>
     = (Inr (Positions [(''CASH'', 5000), (''BTC'', 1 / 10)]),
        \<lparr>files = [''agent'' \<mapsto>
                    [snapshot ''2024-01-01'' 0 [(''CASH'', 10000), (''BTC'', 0)],
                     Rec \<lparr>r_date = Some ''2024-01-02'', r_id = Some 1,
                          r_this_action = Some \<lparr>a_action = ''buy'', a_symbol = ''BTC'',
                                                 a_amount = 1 / 10, a_fill_price = Some 50000\<rparr>,
                          r_positions = Some [(''CASH'', 5000), (''BTC'', 1 / 10)],
                          r_order = Some (PaperFill ''BTC/USDT'' ''buy'' (1 / 10) 50000 ''market'' 7)\<rparr>]],
         IF_TRADE = True\<rparr>)
   \<and> buy btc_env (quote_io 50000 0) (quote_io 50000 7) (Some ''agent'') (Some ''2024-01-02'') (1 / 10) fresh
     = (Inr (ErrorPayload ''Insufficient cash for BTC buy''
               [(''required_cash'', 5000), (''cash_available'', 0)]), fresh)"
proof -
  let ?st = "\<lparr>files = [''agent'' \<mapsto> [snapshot ''2024-01-01'' 0 [(''CASH'', 10000), (''BTC'', 0)]]],
              IF_TRADE = False\<rparr>"
  let ?order = "PaperFill ''BTC/USDT'' ''buy'' (1 / 10) 50000 ''market'' 7"
  have px: "get_last_price btc_env (quote_io 50000 0) None None = Inr 50000"
    by (simp add: gateway_defs string_defs sample_defs)
  have order: "execute_order btc_env (quote_io 50000 7) ''buy'' (1 / 10) None ''market'' None None
                 = Inr ?order"
    by (simp add: gateway_defs string_defs sample_defs)
  have fill: "order_fill_price ?order 50000 = 50000"
    by simp
  have latest: "get_latest_position ''2024-01-02'' ''agent'' (files ?st)
                  = Inr ([(''CASH'', 10000), (''BTC'', 0)], 0)"
    by (simp add: ledger_defs date_defs sample_defs)
  have base: "BASE_SYMBOL btc_env = ''BTC''"
    by (simp add: btc_env_def)
  have none: "files fresh ''agent'' = None"
    by (simp add: fresh_def)
  from buy_scenario_A [OF _ _ px order fill, of "''agent''" "''2024-01-02''" ?st 0] base latest
  have "buy btc_env (quote_io 50000 0) (quote_io 50000 7) (Some ''agent'') (Some ''2024-01-02'') (1 / 10) ?st
          = (Inr (Positions [(''CASH'', 5000), (''BTC'', 1 / 10)]),
             ?st\<lparr>files := append_record ''agent''
                   \<lparr>r_date = Some ''2024-01-02'', r_id = Some (0 + 1),
                    r_this_action = Some \<lparr>a_action = ''buy'', a_symbol = ''BTC'', a_amount = 1 / 10,
                                           a_fill_price = Some 50000\<rparr>,
                    r_positions = Some [(''CASH'', 5000), (''BTC'', 1 / 10)],
                    r_order = Some ?order\<rparr> (files ?st),
                IF_TRADE := True\<rparr>)"
    by simp
  moreover
  from buy_scenario_A [OF _ _ px order fill, of "''agent''" "''2024-01-02''" fresh 0] none
  have "buy btc_env (quote_io 50000 0) (quote_io 50000 7) (Some ''agent'') (Some ''2024-01-02'') (1 / 10) fresh
          = (Inr (ErrorPayload ''Insufficient cash for BTC buy''
                    [(''required_cash'', 5000), (''cash_available'', 0)]), fresh)"
    by simp
  ultimately show ?thesis
    by (simp add: append_record_def)
qed

subsection \<open>The scan of the ledger file\<close>

lemma scan_corrupt: "Corrupt \<in> set ls \<Longrightarrow> scan d ls acc = Inl JSONDecodeError"
  by (induction d ls acc rule: scan.induct) auto

lemma scan_append:
  "scan d (ls @ ls') acc = (case scan d ls acc of Inl e \<Rightarrow> Inl e | Inr acc' \<Rightarrow> scan d ls' acc')"
  by (induction d ls acc rule: scan.induct) auto

lemma scan_error: "scan d ls acc = Inl e \<Longrightarrow> e = JSONDecodeError \<and> Corrupt \<in> set ls"
  by (induction d ls acc rule: scan.induct) (auto split: if_splits)

lemma scan_blank: "scan d (filter (\<lambda>l. l \<noteq> Blank) ls) acc = scan d ls acc"
  by (induction d ls acc rule: scan.induct) auto

lemma on_date_Cons_Rec:
  "on_date d (Rec r # ls) = (if r_date r = Some d then r # on_date d ls else on_date d ls)"
  by (simp add: on_date_def)

lemma on_date_Cons_Blank: "on_date d (Blank # ls) = on_date d ls"
  by (simp add: on_date_def)

lemma parsed_append: "parsed (ls @ ls') = parsed ls @ parsed ls'"
  by (induction ls rule: parsed.induct) auto

lemma on_date_append: "on_date d (ls @ ls') = on_date d ls @ on_date d ls'"
  by (simp add: on_date_def parsed_append)

text \<open>The id the scan ends with is the maximum of the initial one and the ids of the date.\<close>

lemma scan_max_id:
  "scan d ls (lp, mx) = Inr (lp', mx') \<Longrightarrow> mx' = Max (insert mx (set (ids_on d ls)))"
proof (induction d ls "(lp, mx)" arbitrary: lp mx rule: scan.induct)
  case (1 d)
  then show ?case by (simp add: ids_on_def on_date_def)
next
  case (2 d ls)
  then show ?case by (simp add: ids_on_def on_date_Cons_Blank)
next
  case (3 d ls)
  then show ?case by simp
next
  case (4 d r ls latest max_id)
  show ?case
  proof (cases "r_date r = Some d")
    case False
    with 4 show ?thesis by (simp add: ids_on_def on_date_Cons_Rec)
  next
    case True
    have fin: "finite (set (ids_on d ls))" by simp
    show ?thesis
    proof (cases "rec_id r > max_id")
      case gt: True
      with True 4 have "mx' = Max (insert (rec_id r) (set (ids_on d ls)))" by simp
      also have "\<dots> = Max (insert max_id (insert (rec_id r) (set (ids_on d ls))))"
      proof -
        have "rec_id r \<le> Max (insert (rec_id r) (set (ids_on d ls)))"
          using fin by (intro Max_ge) auto
        with gt have "max max_id (Max (insert (rec_id r) (set (ids_on d ls))))
                        = Max (insert (rec_id r) (set (ids_on d ls)))"
          by linarith
        moreover have "Max (insert max_id (insert (rec_id r) (set (ids_on d ls))))
                        = max max_id (Max (insert (rec_id r) (set (ids_on d ls))))"
          using fin by (intro Max_insert) auto
        ultimately show ?thesis by simp
      qed
      finally show ?thesis using True by (simp add: ids_on_def on_date_Cons_Rec insert_commute)
    next
      case le: False
      with True 4 have "mx' = Max (insert max_id (set (ids_on d ls)))" by simp
      also have "\<dots> = Max (insert (rec_id r) (insert max_id (set (ids_on d ls))))"
      proof -
        have "max_id \<le> Max (insert max_id (set (ids_on d ls)))"
          using fin by (intro Max_ge) auto
        with le have "max (rec_id r) (Max (insert max_id (set (ids_on d ls))))
                        = Max (insert max_id (set (ids_on d ls)))"
          by linarith
        moreover have "Max (insert (rec_id r) (insert max_id (set (ids_on d ls))))
                        = max (rec_id r) (Max (insert max_id (set (ids_on d ls))))"
          using fin by (intro Max_insert) auto
        ultimately show ?thesis by simp
      qed
      finally show ?thesis using True by (simp add: ids_on_def on_date_Cons_Rec insert_commute)
    qed
  qed
qed

lemma scan_ge: "scan d ls (lp, mx) = Inr (lp', mx') \<Longrightarrow> mx \<le> mx'"
  by (drule scan_max_id) simp

subsection \<open>The selection of the specification\<close>

lemma select_latest_Nil: "select_latest [] = ([], - 1)"
  by (simp add: select_latest_def max_id_record_def)

lemma select_latest_skip:
  assumes "r' \<in> set rs" "rec_id r < rec_id r'"
  shows "select_latest (r # rs) = select_latest rs"
proof -
  have ne: "set (map rec_id rs) \<noteq> {}" using assms(1) by auto
  have "rec_id r' \<le> Max (set (map rec_id rs))" using assms(1) by simp
  with assms(2) have lt: "rec_id r < Max (set (map rec_id rs))" by simp
  have "Max (set (map rec_id (r # rs))) = max (rec_id r) (Max (set (map rec_id rs)))"
    using ne by simp
  with lt have "Max (set (map rec_id (r # rs))) = Max (set (map rec_id rs))" by simp
  with lt show ?thesis by (simp add: select_latest_def max_id_record_def)
qed

lemma select_latest_head:
  assumes "\<forall>r' \<in> set rs. rec_id r' \<le> rec_id r"
  shows "select_latest (r # rs) = (rec_positions r, rec_id r)"
proof -
  have "Max (set (map rec_id (r # rs))) = rec_id r"
    using assms by (intro Max_eqI) auto
  then show ?thesis by (simp add: select_latest_def max_id_record_def)
qed

text \<open>
  The scan against the selection: the accumulator is replaced by the selected record
  of the date as soon as one of its records has an id above the initial one.
\<close>

lemma scan_select:
  "Corrupt \<notin> set ls \<Longrightarrow>
     scan d ls (lp, mx) =
       Inr (if \<exists>r \<in> set (on_date d ls). mx < rec_id r then select_latest (on_date d ls) else (lp, mx))"
proof (induction d ls "(lp, mx)" arbitrary: lp mx rule: scan.induct)
  case (1 d)
  then show ?case by (simp add: on_date_def)
next
  case (2 d ls)
  then show ?case by (simp add: on_date_Cons_Blank)
next
  case (3 d ls)
  then show ?case by simp
next
  case (4 d r ls latest max_id)
  then have nc: "Corrupt \<notin> set ls" by simp
  show ?case
  proof (cases "r_date r = Some d")
    case False
    with 4(3) [OF False nc] show ?thesis by (simp add: on_date_Cons_Rec)
  next
    case True
    show ?thesis
    proof (cases "rec_id r > max_id")
      case gt: True
      note ih = 4(1) [OF True gt nc]
      show ?thesis
      proof (cases "\<exists>r' \<in> set (on_date d ls). rec_id r < rec_id r'")
        case True
        then obtain r' where "r' \<in> set (on_date d ls)" "rec_id r < rec_id r'" by blast
        then have "select_latest (r # on_date d ls) = select_latest (on_date d ls)"
          by (rule select_latest_skip)
        with True gt ih \<open>r_date r = Some d\<close> show ?thesis
          by (auto simp: on_date_Cons_Rec)
      next
        case False
        then have "select_latest (r # on_date d ls) = (rec_positions r, rec_id r)"
          by (intro select_latest_head) auto
        with False gt ih \<open>r_date r = Some d\<close> show ?thesis
          by (auto simp: on_date_Cons_Rec)
      qed
    next
      case le: False
      note ih = 4(2) [OF True le nc]
      show ?thesis
      proof (cases "\<exists>r' \<in> set (on_date d ls). max_id < rec_id r'")
        case True
        then obtain r' where r': "r' \<in> set (on_date d ls)" "max_id < rec_id r'" by blast
        with le have "rec_id r < rec_id r'" by simp
        with r'(1) have "select_latest (r # on_date d ls) = select_latest (on_date d ls)"
          by (rule select_latest_skip)
        with True le ih \<open>r_date r = Some d\<close> show ?thesis
          by (auto simp: on_date_Cons_Rec)
      next
        case False
        with le ih \<open>r_date r = Some d\<close> show ?thesis
          by (auto simp: on_date_Cons_Rec)
      qed
    qed
  qed
qed

lemma select_latest_id:
  assumes "rs \<noteq> []"
  shows "snd (select_latest rs) = Max (set (map rec_id rs))"
proof -
  have "Max (set (map rec_id rs)) \<in> set (map rec_id rs)"
    using assms by (intro Max_in) auto
  then obtain r where "r \<in> set rs" "rec_id r = Max (set (map rec_id rs))" by auto
  then have "find (\<lambda>r. rec_id r = Max (set (map rec_id rs))) rs \<noteq> None"
    by (auto simp: find_None_iff)
  then obtain r' where f: "find (\<lambda>r. rec_id r = Max (set (map rec_id rs))) rs = Some r'" by auto
  then have "rec_id r' = Max (set (map rec_id rs))"
    by (auto simp: find_Some_iff)
  with f show ?thesis by (simp add: select_latest_def max_id_record_def)
qed

lemma on_date_ids_nonneg:
  "ids_nonneg ls \<Longrightarrow> r \<in> set (on_date d ls) \<Longrightarrow> 0 \<le> rec_id r"
  by (auto simp: ids_nonneg_def on_date_def list_all_iff)

text \<open>On a well-formed file one pass returns the selection of the date, or the initial pair.\<close>

lemma scan_well_formed:
  assumes "no_corrupt ls" "ids_nonneg ls"
  shows "scan d ls ([], - 1) =
           Inr (if on_date d ls \<noteq> [] then select_latest (on_date d ls) else ([], - 1))"
proof (cases "on_date d ls = []")
  case True
  with assms(1) show ?thesis by (simp add: scan_select no_corrupt_def)
next
  case False
  then obtain r where r: "r \<in> set (on_date d ls)" by (cases "on_date d ls") auto
  with assms(2) have "- 1 < rec_id r" using on_date_ids_nonneg by fastforce
  with r have "\<exists>r \<in> set (on_date d ls). - 1 < rec_id r" by blast
  with assms(1) False show ?thesis by (simp add: scan_select no_corrupt_def)
qed

lemma select_latest_nonneg:
  assumes "ids_nonneg ls" "on_date d ls \<noteq> []"
  shows "0 \<le> snd (select_latest (on_date d ls))"
proof -
  have "Max (set (map rec_id (on_date d ls))) \<in> set (map rec_id (on_date d ls))"
    using assms(2) by (intro Max_in) auto
  then obtain r where "r \<in> set (on_date d ls)" "rec_id r = Max (set (map rec_id (on_date d ls)))"
    by auto
  with assms show ?thesis using on_date_ids_nonneg select_latest_id by fastforce
qed

lemma select_latest_is_max:
  assumes "rs \<noteq> []"
  shows "\<exists>r \<in> set rs. select_latest rs = (rec_positions r, rec_id r)
           \<and> (\<forall>r' \<in> set rs. rec_id r' \<le> rec_id r)"
proof -
  let ?m = "Max (set (map rec_id rs))"
  have "?m \<in> set (map rec_id rs)"
    using assms by (intro Max_in) auto
  then have "find (\<lambda>r. rec_id r = ?m) rs \<noteq> None"
    by (auto simp: find_None_iff)
  then obtain r where f: "find (\<lambda>r. rec_id r = ?m) rs = Some r" by auto
  then have r: "r \<in> set rs" "rec_id r = ?m"
    by (auto simp: find_Some_iff in_set_conv_nth)
  have "\<forall>r' \<in> set rs. rec_id r' \<le> ?m" by simp
  with f r show ?thesis
    by (auto simp: select_latest_def max_id_record_def)
qed

lemma strptime_error: "strptime s = Inl e \<Longrightarrow> e = ValueError"
  by (induction s rule: strptime.induct)
     (auto simp: Let_def split: if_splits option.splits list.splits prod.splits)

lemma minus_one_day_error: "minus_one_day t = Inl e \<Longrightarrow> e = OverflowError"
  by (cases t) (auto split: if_splits)

lemma get_yesterday_date_error:
  "get_yesterday_date d = Inl e \<Longrightarrow> e = ValueError \<or> e = OverflowError"
  by (auto simp: get_yesterday_date_def split: sum.splits
           dest: strptime_error minus_one_day_error)

subsection \<open>The latest position\<close>

text \<open>
  C3. On a ledger whose lines all parse and whose records carry ids from 0 on, and for
  a requested date that has a preceding calendar day, \<^verbatim>\<open>get_latest_position\<close>
  returns the positions and id of the maximum-id record of the requested date; when
  that date has no record, of the maximum-id record of the preceding calendar day;
  and the empty position with \<open>-1\<close> when neither date has a record (whatever older
  dates hold) or when the agent has no file.
\<close>

theorem get_latest_position_selects:
  assumes wf: "no_corrupt ls" "ids_nonneg ls"
    and prev: "get_yesterday_date today_date = Inr prev_date"
  shows
    "(fs signature = Some ls \<longrightarrow>
        get_latest_position today_date signature fs = Inr (latest_spec today_date prev_date ls))
     \<and> (fs signature = None \<longrightarrow>
        get_latest_position today_date signature fs = Inr ([], - 1))"
proof (intro conjI impI)
  assume ex: "fs signature = Some ls"
  show "get_latest_position today_date signature fs = Inr (latest_spec today_date prev_date ls)"
  proof (cases "on_date today_date ls = []")
    case True
    then show ?thesis
      using ex wf prev
      by (simp add: get_latest_position_def latest_spec_def scan_well_formed)
  next
    case False
    obtain p i where sel: "select_latest (on_date today_date ls) = (p, i)"
      by (cases "select_latest (on_date today_date ls)")
    from wf(2) False have "0 \<le> snd (select_latest (on_date today_date ls))"
      by (rule select_latest_nonneg)
    with sel have "0 \<le> i" by simp
    with False sel show ?thesis
      using ex wf
      by (simp add: get_latest_position_def latest_spec_def scan_well_formed)
  qed
next
  assume "fs signature = None"
  then show "get_latest_position today_date signature fs = Inr ([], - 1)"
    by (simp add: get_latest_position_def)
qed

theorem get_latest_position_selects_witness:
  "get_latest_position ''2024-03-01'' ''agent''
       [''agent'' \<mapsto> [snapshot ''2024-02-28'' 7 [(''CASH'', 7)],
                       snapshot ''2024-02-29'' 0 [(''CASH'', 1)], Blank,
                       snapshot ''2024-02-29'' 1 [(''CASH'', 2)]]]
     = Inr ([(''CASH'', 2)], 1)
   \<and> get_latest_position ''2024-03-02'' ''agent''
       [''agent'' \<mapsto> [snapshot ''2024-02-28'' 7 [(''CASH'', 7)],
                       snapshot ''2024-02-29'' 0 [(''CASH'', 1)], Blank,
                       snapshot ''2024-02-29'' 1 [(''CASH'', 2)]]]
     = Inr ([], - 1)
   \<and> get_latest_position ''2024-03-01'' ''agent'' Map.empty = Inr ([], - 1)"
proof -
  let ?ls = "[snapshot ''2024-02-28'' 7 [(''CASH'', 7)],
              snapshot ''2024-02-29'' 0 [(''CASH'', 1)], Blank,
              snapshot ''2024-02-29'' 1 [(''CASH'', 2)]]"
  have nc: "no_corrupt ?ls"
    by (simp add: no_corrupt_def snapshot_def)
  have nn: "ids_nonneg ?ls"
    by (simp add: ids_nonneg_def snapshot_def rec_id_def)
  have p1: "get_yesterday_date ''2024-03-01'' = Inr ''2024-02-29''"
    by (simp add: date_defs)
  have p2: "get_yesterday_date ''2024-03-02'' = Inr ''2024-03-01''"
    by (simp add: date_defs)
  have s1: "latest_spec ''2024-03-01'' ''2024-02-29'' ?ls = ([(''CASH'', 2)], 1)"
    by (simp add: latest_spec_def select_latest_def max_id_record_def on_date_def snapshot_def
          rec_id_def rec_positions_def)
  have s2: "latest_spec ''2024-03-02'' ''2024-03-01'' ?ls = ([], - 1)"
    by (simp add: latest_spec_def on_date_def snapshot_def)
  from get_latest_position_selects [OF nc nn p1, of "[''agent'' \<mapsto> ?ls]" "''agent''"] s1
  have "get_latest_position ''2024-03-01'' ''agent'' [''agent'' \<mapsto> ?ls] = Inr ([(''CASH'', 2)], 1)"
    by simp
  moreover
  from get_latest_position_selects [OF nc nn p2, of "[''agent'' \<mapsto> ?ls]" "''agent''"] s2
  have "get_latest_position ''2024-03-02'' ''agent'' [''agent'' \<mapsto> ?ls] = Inr ([], - 1)"
    by simp
  moreover
  from get_latest_position_selects [OF nc nn p1, of Map.empty "''agent''"]
  have "get_latest_position ''2024-03-01'' ''agent'' Map.empty = Inr ([], - 1)"
    by simp
  ultimately show ?thesis by simp
qed

subsection \<open>Lines that do not parse\<close>

text \<open>
  C5 (as the claim states it, refuted). \<^verbatim>\<open>json.loads\<close> is called on every non-blank
  line with no handler around it: a file with one unparseable line and one good record
  of the requested date yields the exception, not that record.
\<close>

theorem corrupt_line_raises:
  "get_latest_position ''2024-01-02'' ''agent''
       [''agent'' \<mapsto> [Corrupt, snapshot ''2024-01-02'' 0 [(''CASH'', 10000)]]]
     = Inl JSONDecodeError
   \<and> get_latest_position ''2024-01-02'' ''agent''
       [''agent'' \<mapsto> [Corrupt, snapshot ''2024-01-02'' 0 [(''CASH'', 10000)]]]
     \<noteq> Inr ([(''CASH'', 10000)], 0)"
  by (simp add: get_latest_position_def)

text \<open>
  C5 (amended). Only blank lines are skipped: they never change the result. A file
  with a non-blank line that does not parse makes the scan raise \<^verbatim>\<open>JSONDecodeError\<close>,
  and that is the only way it raises this error. The callers that would write then
  return the exception and leave the state, the file included, as it was.
\<close>

theorem scan_skips_blank_raises_on_corrupt:
  assumes ex: "fs signature = Some ls"
  shows
    "(Corrupt \<in> set ls \<longrightarrow> get_latest_position today_date signature fs = Inl JSONDecodeError)
     \<and> (Corrupt \<notin> set ls \<longrightarrow> get_latest_position today_date signature fs \<noteq> Inl JSONDecodeError)
     \<and> get_latest_position today_date signature (fs(signature \<mapsto> filter (\<lambda>l. l \<noteq> Blank) ls))
         = get_latest_position today_date signature fs
     \<and> (Corrupt \<in> set ls \<and> files st = fs \<longrightarrow>
          add_no_trade_record today_date signature st = (Inl JSONDecodeError, st)
          \<and> run_order env io1 io2 side amount signature today_date order_type st
              = (Inl JSONDecodeError, st))"
proof (intro conjI impI)
  assume "Corrupt \<in> set ls"
  then show "get_latest_position today_date signature fs = Inl JSONDecodeError"
    using ex by (simp add: get_latest_position_def scan_corrupt)
next
  assume nc: "Corrupt \<notin> set ls"
  show "get_latest_position today_date signature fs \<noteq> Inl JSONDecodeError"
  proof
    assume "get_latest_position today_date signature fs = Inl JSONDecodeError"
    with ex nc show False
      by (auto simp: get_latest_position_def
               split: sum.splits prod.splits if_splits
               dest: scan_error get_yesterday_date_error)
  qed
next
  show "get_latest_position today_date signature (fs(signature \<mapsto> filter (\<lambda>l. l \<noteq> Blank) ls))
          = get_latest_position today_date signature fs"
    using ex by (simp add: get_latest_position_def scan_blank split: sum.splits prod.splits)
next
  assume "Corrupt \<in> set ls \<and> files st = fs"
  then have "get_latest_position today_date signature (files st) = Inl JSONDecodeError"
    using ex by (simp add: get_latest_position_def scan_corrupt)
  then show "add_no_trade_record today_date signature st = (Inl JSONDecodeError, st)"
    and "run_order env io1 io2 side amount signature today_date order_type st
           = (Inl JSONDecodeError, st)"
    by (simp_all add: add_no_trade_record_def run_order_def)
qed

theorem scan_skips_blank_raises_on_corrupt_witness:
  "get_latest_position ''2024-01-02'' ''agent''
       [''agent'' \<mapsto> [Blank, snapshot ''2024-01-02'' 0 [(''CASH'', 10000)], Corrupt]]
     = Inl JSONDecodeError
   \<and> get_latest_position ''2024-01-02'' ''agent''
       [''agent'' \<mapsto> [Blank, snapshot ''2024-01-02'' 0 [(''CASH'', 10000)], Blank]]
     \<noteq> Inl JSONDecodeError
   \<and> get_latest_position ''2024-01-02'' ''agent''
       [''agent'' \<mapsto> [snapshot ''2024-01-02'' 0 [(''CASH'', 10000)]]]
     = get_latest_position ''2024-01-02'' ''agent''
       [''agent'' \<mapsto> [Blank, snapshot ''2024-01-02'' 0 [(''CASH'', 10000)], Blank]]
   \<and> add_no_trade_record ''2024-01-02'' ''agent''
       \<lparr>files = [''agent'' \<mapsto> [Blank, snapshot ''2024-01-02'' 0 [(''CASH'', 10000)], Corrupt]],
        IF_TRADE = False\<rparr>
     = (Inl JSONDecodeError,
        \<lparr>files = [''agent'' \<mapsto> [Blank, snapshot ''2024-01-02'' 0 [(''CASH'', 10000)], Corrupt]],
         IF_TRADE = False\<rparr>)"
proof -
  let ?r = "snapshot ''2024-01-02'' 0 [(''CASH'', 10000)]"
  let ?bad = "[Blank, ?r, Corrupt]"
  let ?good = "[Blank, ?r, Blank]"
  let ?st = "\<lparr>files = [''agent'' \<mapsto> ?bad], IF_TRADE = False\<rparr>"
  have c: "Corrupt \<in> set ?bad" by simp
  have n: "Corrupt \<notin> set ?good" by (simp add: snapshot_def)
  have f: "filter (\<lambda>l. l \<noteq> Blank) ?good = [?r]" by (simp add: snapshot_def)
  from scan_skips_blank_raises_on_corrupt
         [of "[''agent'' \<mapsto> ?bad]" "''agent''" ?bad "''2024-01-02''" ?st] c
  have "get_latest_position ''2024-01-02'' ''agent'' [''agent'' \<mapsto> ?bad] = Inl JSONDecodeError"
    and "add_no_trade_record ''2024-01-02'' ''agent'' ?st = (Inl JSONDecodeError, ?st)"
    by simp_all
  moreover
  from scan_skips_blank_raises_on_corrupt
         [of "[''agent'' \<mapsto> ?good]" "''agent''" ?good "''2024-01-02''"] n f
  have "get_latest_position ''2024-01-02'' ''agent'' [''agent'' \<mapsto> ?good] \<noteq> Inl JSONDecodeError"
    and "get_latest_position ''2024-01-02'' ''agent'' [''agent'' \<mapsto> [?r]]
           = get_latest_position ''2024-01-02'' ''agent'' [''agent'' \<mapsto> ?good]"
    by simp_all
  ultimately show ?thesis by simp
qed

subsection \<open>Settlement\<close>

lemma pos_get_setdefault: "pos_get (setdefault k' 0 p) k = pos_get p k"
  by (auto simp: pos_get_def setdefault_def map_add_def split: option.splits)

lemma pos_get_seeded: "pos_get (seeded env p) k = pos_get p k"
  by (simp add: seeded_def ensure_symbol_def pos_get_setdefault) (simp add: pos_get_def)

lemma pos_get_update: "pos_get (AList.update k' v p) k = (if k = k' then v else pos_get p k)"
  by (simp add: pos_get_def update_conv')



text \<open>In exact arithmetic \<open>run_order_in\<close> is \<open>run_order\<close>, and nothing rounds.\<close>

lemma run_order_in_exact:
  "run_order_in exact env io1 io2 side amount sg d order_type st
     = run_order env io1 io2 side amount sg d order_type st"
  unfolding run_order_in_def run_order_def exact_def arith.select_convs by (rule refl)

lemma rounds_nothing_exact: "rounds_nothing exact cash held fill amount"
  by (simp add: rounds_nothing_def exact_def)

text \<open>
  C4 (as the claim states it, refuted). In binary64 the price 64123.45 is
  \<open>4406529930507059 / 2 ^ 36\<close> and the amount 0.1 is \<open>3602879701896397 / 2 ^ 55\<close>. The buy
  of that amount at that price from \<^verbatim>\<open>{CASH: 10000, BTC: 0}\<close> commits with
  \<^verbatim>\<open>CASH' = 3587.6549999999997\<close>, and \<open>CASH' + BTC' * p\<close> is not \<open>CASH + BTC * p\<close>: the
  product \<open>p * a\<close> was rounded before it was subtracted. The buy of 0.7889 at 58678.21
  from \<^verbatim>\<open>{CASH: 50048.07, BTC: 1.3485}\<close> commits too, and there the two sides differ
  even when they are themselves computed in binary64 (129175.636185 against
  129175.63618500001).
\<close>

theorem conservation_fails_in_binary64:
  "fl (6412345 / 100) = 4406529930507059 / 2 ^ 36
   \<and> fl (1 / 10) = 3602879701896397 / 2 ^ 55
   \<and> fst (run_order_in binary64 btc_env
             (quote_io (4406529930507059 / 2 ^ 36) 0) (quote_io (4406529930507059 / 2 ^ 36) 7)
             ''buy'' (3602879701896397 / 2 ^ 55) ''agent'' ''2024-01-02'' ''market''
             \<lparr>files = [''agent'' \<mapsto> [snapshot ''2024-01-02'' 0 [(''CASH'', 10000), (''BTC'', 0)]]],
              IF_TRADE = False\<rparr>)
       = Inr (Positions [(''CASH'', 3944668388948705 / 2 ^ 40),
                         (''BTC'', 3602879701896397 / 2 ^ 55)])
   \<and> 3944668388948705 / 2 ^ 40 + 3602879701896397 / 2 ^ 55 * (4406529930507059 / 2 ^ 36)
       \<noteq> (10000 :: real) + 0 * (4406529930507059 / 2 ^ 36)
   \<and> fst (run_order_in binary64 btc_env
             (quote_io (8064671774010245 / 2 ^ 37) 0) (quote_io (8064671774010245 / 2 ^ 37) 7)
             ''buy'' (7105779492065169 / 2 ^ 53) ''agent'' ''2024-01-02'' ''market''
             \<lparr>files = [''agent'' \<mapsto> [snapshot ''2024-01-02'' 0
                                          [(''CASH'', 6878554364093399 / 2 ^ 37),
                                           (''BTC'', 3036552048754557 / 2 ^ 51)]]],
              IF_TRADE = False\<rparr>)
       = Inr (Positions [(''CASH'', 129083700394179 / 2 ^ 35),
                         (''BTC'', 4812996921770849 / 2 ^ 51)])
   \<and> f_add binary64 (129083700394179 / 2 ^ 35)
         (f_mul binary64 (4812996921770849 / 2 ^ 51) (8064671774010245 / 2 ^ 37))
       \<noteq> f_add binary64 (6878554364093399 / 2 ^ 37)
           (f_mul binary64 (3036552048754557 / 2 ^ 51) (8064671774010245 / 2 ^ 37))"
proof -
  have p: "fl (6412345 / 100) = 4406529930507059 / 2 ^ 36"
    by (simp add: fl_def exponent_def pow2_def round_half_even_def Let_def)
  have a: "fl (1 / 10) = 3602879701896397 / 2 ^ 55"
    by (simp add: fl_def exponent_def pow2_def round_half_even_def Let_def)
  have latest: "get_latest_position ''2024-01-02'' ''agent''
                  [''agent'' \<mapsto> [snapshot ''2024-01-02'' 0 [(''CASH'', 10000), (''BTC'', 0)]]]
                = Inr ([(''CASH'', 10000), (''BTC'', 0)], 0)"
    by (simp add: ledger_defs sample_defs)
  have px: "get_last_price btc_env (quote_io (4406529930507059 / 2 ^ 36) 0) None None
              = Inr (4406529930507059 / 2 ^ 36)"
    by (simp add: gateway_defs string_defs sample_defs)
  have order: "execute_order btc_env (quote_io (4406529930507059 / 2 ^ 36) 7) ''buy''
                 (3602879701896397 / 2 ^ 55) None ''market'' None None
               = Inr (PaperFill ''BTC/USDT'' ''buy'' (3602879701896397 / 2 ^ 55)
                        (4406529930507059 / 2 ^ 36) ''market'' 7)"
    by (simp add: gateway_defs string_defs sample_defs)
  have run: "fst (run_order_in binary64 btc_env
             (quote_io (4406529930507059 / 2 ^ 36) 0) (quote_io (4406529930507059 / 2 ^ 36) 7)
             ''buy'' (3602879701896397 / 2 ^ 55) ''agent'' ''2024-01-02'' ''market''
             \<lparr>files = [''agent'' \<mapsto> [snapshot ''2024-01-02'' 0 [(''CASH'', 10000), (''BTC'', 0)]]],
              IF_TRADE = False\<rparr>)
       = Inr (Positions [(''CASH'', 3944668388948705 / 2 ^ 40),
                         (''BTC'', 3602879701896397 / 2 ^ 55)])"
    unfolding run_order_in_def
    apply (simp only: state.simps latest px order sum.case prod.case Let_def order_fill_price.simps)
    apply (simp add: binary64_def seeded_def ensure_symbol_def setdefault_def pos_get_def btc_env_def)
    apply (simp add: fl_def exponent_def pow2_def round_half_even_def Let_def)
    done
  have ne: "3944668388948705 / 2 ^ 40 + 3602879701896397 / 2 ^ 55 * (4406529930507059 / 2 ^ 36)
              \<noteq> (10000 :: real) + 0 * (4406529930507059 / 2 ^ 36)"
    by simp
  have latest2: "get_latest_position ''2024-01-02'' ''agent''
                   [''agent'' \<mapsto> [snapshot ''2024-01-02'' 0
                                      [(''CASH'', 6878554364093399 / 2 ^ 37),
                                       (''BTC'', 3036552048754557 / 2 ^ 51)]]]
                 = Inr ([(''CASH'', 6878554364093399 / 2 ^ 37),
                         (''BTC'', 3036552048754557 / 2 ^ 51)], 0)"
    by (simp add: ledger_defs sample_defs)
  have px2: "get_last_price btc_env (quote_io (8064671774010245 / 2 ^ 37) 0) None None
               = Inr (8064671774010245 / 2 ^ 37)"
    by (simp add: gateway_defs string_defs sample_defs)
  have order2: "execute_order btc_env (quote_io (8064671774010245 / 2 ^ 37) 7) ''buy''
                  (7105779492065169 / 2 ^ 53) None ''market'' None None
                = Inr (PaperFill ''BTC/USDT'' ''buy'' (7105779492065169 / 2 ^ 53)
                         (8064671774010245 / 2 ^ 37) ''market'' 7)"
    by (simp add: gateway_defs string_defs sample_defs)
  have run2: "fst (run_order_in binary64 btc_env
             (quote_io (8064671774010245 / 2 ^ 37) 0) (quote_io (8064671774010245 / 2 ^ 37) 7)
             ''buy'' (7105779492065169 / 2 ^ 53) ''agent'' ''2024-01-02'' ''market''
             \<lparr>files = [''agent'' \<mapsto> [snapshot ''2024-01-02'' 0
                                          [(''CASH'', 6878554364093399 / 2 ^ 37),
                                           (''BTC'', 3036552048754557 / 2 ^ 51)]]],
              IF_TRADE = False\<rparr>)
       = Inr (Positions [(''CASH'', 129083700394179 / 2 ^ 35),
                         (''BTC'', 4812996921770849 / 2 ^ 51)])"
    unfolding run_order_in_def
    apply (simp only: state.simps latest2 px2 order2 sum.case prod.case Let_def
             order_fill_price.simps)
    apply (simp add: binary64_def seeded_def ensure_symbol_def setdefault_def pos_get_def btc_env_def)
    apply (simp add: fl_def exponent_def pow2_def round_half_even_def Let_def)
    done
  have after: "f_add binary64 (129083700394179 / 2 ^ 35)
                 (f_mul binary64 (4812996921770849 / 2 ^ 51) (8064671774010245 / 2 ^ 37))
               = 8876882125673107 / 2 ^ 36"
    apply (simp add: binary64_def)
    apply (simp add: fl_def exponent_def pow2_def round_half_even_def Let_def)
    done
  have before: "f_add binary64 (6878554364093399 / 2 ^ 37)
                  (f_mul binary64 (3036552048754557 / 2 ^ 51) (8064671774010245 / 2 ^ 37))
                = 2219220531418277 / 2 ^ 34"
    apply (simp add: binary64_def)
    apply (simp add: fl_def exponent_def pow2_def round_half_even_def Let_def)
    done
  have ne2: "f_add binary64 (129083700394179 / 2 ^ 35)
               (f_mul binary64 (4812996921770849 / 2 ^ 51) (8064671774010245 / 2 ^ 37))
             \<noteq> f_add binary64 (6878554364093399 / 2 ^ 37)
                 (f_mul binary64 (3036552048754557 / 2 ^ 51) (8064671774010245 / 2 ^ 37))"
    unfolding after before by simp
  from p a run ne run2 ne2 show ?thesis by (intro conjI)
qed

text \<open>
  C4 (amended). Let the latest snapshot be \<open>p0\<close>, let the settlement commit with the
  position \<open>p'\<close> in the arithmetic \<open>ar\<close>, with \<open>fill\<close> the fill price it records and the
  base symbol other than \<^verbatim>\<open>CASH\<close>. A buy sets \<open>CASH'\<close> to \<open>CASH\<close> minus the product
  \<open>fill * amount\<close> and \<open>symbol'\<close> to \<open>symbol\<close> plus \<open>amount\<close>; a sell sets \<open>symbol'\<close> to
  \<open>symbol\<close> minus \<open>amount\<close> and \<open>CASH'\<close> to \<open>CASH\<close> plus the product; each operation is
  that of \<open>ar\<close>, rounded as \<open>ar\<close> rounds. Every other symbol keeps its quantity, and
  the record appended carries \<open>p'\<close> and \<open>fill\<close>. When none of these operations rounds,
  \<open>CASH' + symbol' * fill = CASH + symbol * fill\<close>.
\<close>

theorem settlement_moves_quantity:
  assumes base: "BASE_SYMBOL env \<noteq> ''CASH''"
    and latest: "get_latest_position today_date signature (files st) = Inr (p0, last_id)"
    and px: "get_last_price env io1 None None = Inr px"
    and order: "execute_order env io2 side amount None order_type None None = Inr order"
    and committed: "run_order_in ar env io1 io2 side amount signature today_date order_type st
                      = (Inr (Positions p'), st')"
  shows
    "(side = ''buy'' \<longrightarrow>
        pos_get p' ''CASH''
          = f_sub ar (pos_get p0 ''CASH'') (f_mul ar (order_fill_price order px) amount)
        \<and> pos_get p' (BASE_SYMBOL env) = f_add ar (pos_get p0 (BASE_SYMBOL env)) amount)
     \<and> (side \<noteq> ''buy'' \<longrightarrow>
        pos_get p' (BASE_SYMBOL env) = f_sub ar (pos_get p0 (BASE_SYMBOL env)) amount
        \<and> pos_get p' ''CASH''
          = f_add ar (pos_get p0 ''CASH'') (f_mul ar (order_fill_price order px) amount))
     \<and> (\<forall>k. k \<noteq> ''CASH'' \<and> k \<noteq> BASE_SYMBOL env \<longrightarrow> pos_get p' k = pos_get p0 k)
     \<and> (rounds_nothing ar (pos_get p0 ''CASH'') (pos_get p0 (BASE_SYMBOL env))
            (order_fill_price order px) amount \<longrightarrow>
          pos_get p' ''CASH'' + pos_get p' (BASE_SYMBOL env) * order_fill_price order px
            = pos_get p0 ''CASH'' + pos_get p0 (BASE_SYMBOL env) * order_fill_price order px)
     \<and> st' = st\<lparr>files := append_record signature
                   \<lparr>r_date = Some today_date, r_id = Some (last_id + 1),
                    r_this_action = Some \<lparr>a_action = side, a_symbol = BASE_SYMBOL env,
                                           a_amount = amount,
                                           a_fill_price = Some (order_fill_price order px)\<rparr>,
                    r_positions = Some p',
                    r_order = Some order\<rparr> (files st),
                 IF_TRADE := True\<rparr>"
proof (cases "side = ''buy''")
  case True
  with committed latest px order
  have p': "p' = AList.update (BASE_SYMBOL env)
                   (f_add ar (pos_get (AList.update ''CASH''
                      (f_sub ar (pos_get (seeded env p0) ''CASH'')
                         (f_mul ar (order_fill_price order px) amount))
                      (seeded env p0)) (BASE_SYMBOL env)) amount)
                   (AList.update ''CASH''
                      (f_sub ar (pos_get (seeded env p0) ''CASH'')
                         (f_mul ar (order_fill_price order px) amount))
                      (seeded env p0))"
    and st': "st' = st\<lparr>files := append_record signature
                   \<lparr>r_date = Some today_date, r_id = Some (last_id + 1),
                    r_this_action = Some \<lparr>a_action = side, a_symbol = BASE_SYMBOL env,
                                           a_amount = amount,
                                           a_fill_price = Some (order_fill_price order px)\<rparr>,
                    r_positions = Some p',
                    r_order = Some order\<rparr> (files st),
                 IF_TRADE := True\<rparr>"
    by (auto simp: run_order_in_def Let_def split: if_splits)
  from p' base
  have cash: "pos_get p' ''CASH''
                = f_sub ar (pos_get p0 ''CASH'') (f_mul ar (order_fill_price order px) amount)"
    and held: "pos_get p' (BASE_SYMBOL env) = f_add ar (pos_get p0 (BASE_SYMBOL env)) amount"
    and rest: "\<forall>k. k \<noteq> ''CASH'' \<and> k \<noteq> BASE_SYMBOL env \<longrightarrow> pos_get p' k = pos_get p0 k"
    by (simp_all add: pos_get_update pos_get_seeded)
  have "rounds_nothing ar (pos_get p0 ''CASH'') (pos_get p0 (BASE_SYMBOL env))
          (order_fill_price order px) amount \<longrightarrow>
        pos_get p' ''CASH'' + pos_get p' (BASE_SYMBOL env) * order_fill_price order px
          = pos_get p0 ''CASH'' + pos_get p0 (BASE_SYMBOL env) * order_fill_price order px"
  proof
    assume "rounds_nothing ar (pos_get p0 ''CASH'') (pos_get p0 (BASE_SYMBOL env))
              (order_fill_price order px) amount"
    then have m: "f_mul ar (order_fill_price order px) amount = order_fill_price order px * amount"
      and s: "f_sub ar (pos_get p0 ''CASH'') (order_fill_price order px * amount)
                = pos_get p0 ''CASH'' - order_fill_price order px * amount"
      and h: "f_add ar (pos_get p0 (BASE_SYMBOL env)) amount = pos_get p0 (BASE_SYMBOL env) + amount"
      by (simp_all add: rounds_nothing_def)
    show "pos_get p' ''CASH'' + pos_get p' (BASE_SYMBOL env) * order_fill_price order px
            = pos_get p0 ''CASH'' + pos_get p0 (BASE_SYMBOL env) * order_fill_price order px"
      by (simp only: cash held m s h) (simp add: algebra_simps)
  qed
  with True st' cash held rest show ?thesis by simp
next
  case False
  with committed latest px order
  have p': "p' = AList.update ''CASH''
                   (f_add ar (pos_get (AList.update (BASE_SYMBOL env)
                      (f_sub ar (pos_get (seeded env p0) (BASE_SYMBOL env)) amount)
                      (seeded env p0)) ''CASH'')
                      (f_mul ar (order_fill_price order px) amount))
                   (AList.update (BASE_SYMBOL env)
                      (f_sub ar (pos_get (seeded env p0) (BASE_SYMBOL env)) amount)
                      (seeded env p0))"
    and st': "st' = st\<lparr>files := append_record signature
                   \<lparr>r_date = Some today_date, r_id = Some (last_id + 1),
                    r_this_action = Some \<lparr>a_action = side, a_symbol = BASE_SYMBOL env,
                                           a_amount = amount,
                                           a_fill_price = Some (order_fill_price order px)\<rparr>,
                    r_positions = Some p',
                    r_order = Some order\<rparr> (files st),
                 IF_TRADE := True\<rparr>"
    by (auto simp: run_order_in_def Let_def split: if_splits)
  from p' base
  have cash: "pos_get p' ''CASH''
                = f_add ar (pos_get p0 ''CASH'') (f_mul ar (order_fill_price order px) amount)"
    and held: "pos_get p' (BASE_SYMBOL env) = f_sub ar (pos_get p0 (BASE_SYMBOL env)) amount"
    and rest: "\<forall>k. k \<noteq> ''CASH'' \<and> k \<noteq> BASE_SYMBOL env \<longrightarrow> pos_get p' k = pos_get p0 k"
    by (simp_all add: pos_get_update pos_get_seeded)
  have "rounds_nothing ar (pos_get p0 ''CASH'') (pos_get p0 (BASE_SYMBOL env))
          (order_fill_price order px) amount \<longrightarrow>
        pos_get p' ''CASH'' + pos_get p' (BASE_SYMBOL env) * order_fill_price order px
          = pos_get p0 ''CASH'' + pos_get p0 (BASE_SYMBOL env) * order_fill_price order px"
  proof
    assume "rounds_nothing ar (pos_get p0 ''CASH'') (pos_get p0 (BASE_SYMBOL env))
              (order_fill_price order px) amount"
    then have m: "f_mul ar (order_fill_price order px) amount = order_fill_price order px * amount"
      and s: "f_add ar (pos_get p0 ''CASH'') (order_fill_price order px * amount)
                = pos_get p0 ''CASH'' + order_fill_price order px * amount"
      and h: "f_sub ar (pos_get p0 (BASE_SYMBOL env)) amount = pos_get p0 (BASE_SYMBOL env) - amount"
      by (simp_all add: rounds_nothing_def)
    show "pos_get p' ''CASH'' + pos_get p' (BASE_SYMBOL env) * order_fill_price order px
            = pos_get p0 ''CASH'' + pos_get p0 (BASE_SYMBOL env) * order_fill_price order px"
      by (simp only: cash held m s h) (simp add: algebra_simps)
  qed
  with False st' cash held rest show ?thesis by simp
qed

theorem settlement_moves_quantity_witness:
  "fst (run_order_in binary64 btc_env (quote_io 50000 0) (quote_io 50000 7) ''buy'' (1 / 4) ''agent''
          ''2024-01-02'' ''market''
          \<lparr>files = [''agent'' \<mapsto> [snapshot ''2024-01-02'' 0 [(''CASH'', 20000), (''BTC'', 0)]]],
           IF_TRADE = False\<rparr>)
     = Inr (Positions [(''CASH'', 7500), (''BTC'', 1 / 4)])
   \<and> rounds_nothing binary64 20000 0 50000 (1 / 4)
   \<and> (7500 :: real) = f_sub binary64 20000 (f_mul binary64 50000 (1 / 4))
   \<and> (1 / 4 :: real) = f_add binary64 0 (1 / 4)
   \<and> (7500 :: real) + 1 / 4 * 50000 = 20000 + 0 * 50000
   \<and> fst (run_order_in binary64 btc_env (quote_io 50000 0) (quote_io 50000 7) ''sell'' (1 / 4) ''agent''
          ''2024-01-03'' ''market''
          \<lparr>files = [''agent'' \<mapsto> [snapshot ''2024-01-03'' 4 [(''CASH'', 7500), (''BTC'', 1 / 4)]]],
           IF_TRADE = False\<rparr>)
     = Inr (Positions [(''CASH'', 20000), (''BTC'', 0)])
   \<and> (0 :: real) = f_sub binary64 (1 / 4) (1 / 4)
   \<and> (20000 :: real) = f_add binary64 7500 (f_mul binary64 50000 (1 / 4))"
proof -
  let ?a = "[(''CASH'', 20000), (''BTC'', 0)] :: position"
  let ?b = "[(''CASH'', 7500), (''BTC'', 1 / 4)] :: position"
  let ?st1 = "\<lparr>files = [''agent'' \<mapsto> [snapshot ''2024-01-02'' 0 ?a]], IF_TRADE = False\<rparr>"
  let ?st2 = "\<lparr>files = [''agent'' \<mapsto> [snapshot ''2024-01-03'' 4 ?b]], IF_TRADE = False\<rparr>"
  let ?buy = "PaperFill ''BTC/USDT'' ''buy'' (1 / 4) 50000 ''market'' 7"
  let ?sell = "PaperFill ''BTC/USDT'' ''sell'' (1 / 4) 50000 ''market'' 7"
  let ?run1 = "run_order_in binary64 btc_env (quote_io 50000 0) (quote_io 50000 7) ''buy'' (1 / 4)
                 ''agent'' ''2024-01-02'' ''market'' ?st1"
  let ?run2 = "run_order_in binary64 btc_env (quote_io 50000 0) (quote_io 50000 7) ''sell'' (1 / 4)
                 ''agent'' ''2024-01-03'' ''market'' ?st2"
  have base: "BASE_SYMBOL btc_env \<noteq> ''CASH''" and sym: "BASE_SYMBOL btc_env = ''BTC''"
    by (simp_all add: btc_env_def)
  have l1: "get_latest_position ''2024-01-02'' ''agent'' (files ?st1) = Inr (?a, 0)"
    and l2: "get_latest_position ''2024-01-03'' ''agent'' (files ?st2) = Inr (?b, 4)"
    by (simp_all add: ledger_defs sample_defs)
  have px: "get_last_price btc_env (quote_io 50000 0) None None = Inr 50000"
    by (simp add: gateway_defs string_defs sample_defs)
  have o1: "execute_order btc_env (quote_io 50000 7) ''buy'' (1 / 4) None ''market'' None None
              = Inr ?buy"
    and o2: "execute_order btc_env (quote_io 50000 7) ''sell'' (1 / 4) None ''market'' None None
              = Inr ?sell"
    by (simp_all add: gateway_defs string_defs sample_defs)
  have f1: "fst ?run1 = Inr (Positions ?b)"
    unfolding run_order_in_def
    apply (simp only: l1 px o1 sum.case prod.case Let_def order_fill_price.simps)
    apply (simp add: binary64_def seeded_def ensure_symbol_def setdefault_def pos_get_def btc_env_def)
    apply (simp add: fl_def exponent_def pow2_def round_half_even_def Let_def)
    done
  have f2: "fst ?run2 = Inr (Positions ?a)"
    unfolding run_order_in_def
    apply (simp only: l2 px o2 sum.case prod.case Let_def order_fill_price.simps)
    apply (simp add: binary64_def seeded_def ensure_symbol_def setdefault_def pos_get_def btc_env_def)
    apply (simp add: fl_def exponent_def pow2_def round_half_even_def Let_def)
    done
  have r1: "?run1 = (Inr (Positions ?b), snd ?run1)"
    by (simp add: prod_eq_iff f1)
  have r2: "?run2 = (Inr (Positions ?a), snd ?run2)"
    by (simp add: prod_eq_iff f2)
  have rn: "rounds_nothing binary64 20000 0 50000 (1 / 4)"
    apply (simp add: rounds_nothing_def binary64_def)
    apply (simp add: fl_def exponent_def pow2_def round_half_even_def Let_def)
    done
  have v: "pos_get ?a ''CASH'' = 20000" "pos_get ?a ''BTC'' = 0"
    "pos_get ?b ''CASH'' = 7500" "pos_get ?b ''BTC'' = 1 / 4"
    by (simp_all add: pos_get_def)
  have fill: "order_fill_price ?buy 50000 = 50000" "order_fill_price ?sell 50000 = 50000"
    by simp_all
  note buy = settlement_moves_quantity [OF base l1 px o1 r1, unfolded sym v fill]
  note sell = settlement_moves_quantity [OF base l2 px o2 r2, unfolded sym v fill]
  from buy rn have "(7500 :: real) = f_sub binary64 20000 (f_mul binary64 50000 (1 / 4))"
    and "(1 / 4 :: real) = f_add binary64 0 (1 / 4)"
    and "(7500 :: real) + 1 / 4 * 50000 = 20000 + 0 * 50000"
    by blast+
  moreover
  from sell have "(0 :: real) = f_sub binary64 (1 / 4) (1 / 4)"
    and "(20000 :: real) = f_add binary64 7500 (f_mul binary64 50000 (1 / 4))"
    by blast+
  ultimately show ?thesis using f1 f2 rn by (intro conjI)
qed

subsection \<open>The exchange gateway\<close>

lemma py_float_not_RuntimeError: "py_float f v \<noteq> Inl RuntimeError"
  by (cases v) (auto split: option.splits)

text \<open>
  C10 (as the claim states it, refuted). With \<^verbatim>\<open>last\<close> zero, \<^verbatim>\<open>close\<close> \<^verbatim>\<open>None\<close> and
  \<^verbatim>\<open>info.lastPrice\<close> zero, all three fields are falsy, yet \<^verbatim>\<open>get_last_price\<close> does
  not raise: the test after the \<^verbatim>\<open>or\<close> chain is \<^verbatim>\<open>price is None\<close>, and the zero of
  the last operand is returned.
\<close>

theorem zero_info_price_returned:
  "\<not> truthy (PyNum 0) \<and> \<not> truthy PyNone
   \<and> get_last_price btc_env
         \<lparr>fetch_ticker = (\<lambda>pair mode. Inr [(''last'', PyNum 0), (''close'', PyNone),
                                             (''info'', PyDict [(''lastPrice'', PyNum 0)])]),
          time_time = 0, create_order = Inl (ExchangeError [])\<rparr> None None
       = Inr 0"
  by (simp add: gateway_defs)

text \<open>
  C10 (amended). On a fetched ticker, a truthy \<^verbatim>\<open>last\<close> is the price; a falsy or
  absent \<^verbatim>\<open>last\<close> gives way to a truthy \<^verbatim>\<open>close\<close>; when both are falsy or absent the
  price is \<^verbatim>\<open>info.lastPrice\<close> whatever it is, and the no-price error is raised if and
  only if \<^verbatim>\<open>last\<close> and \<^verbatim>\<open>close\<close> are falsy or absent and \<^verbatim>\<open>info.lastPrice\<close> is
  \<^verbatim>\<open>None\<close> or absent. A zero in \<^verbatim>\<open>last\<close> is never the price returned from that field.
\<close>

theorem get_last_price_fallback:
  assumes fetched: "fetch_ticker io (upper (str_or symbol (DEFAULT_PAIR env))) mode = Inr t"
  shows
    "(truthy (dict_get t ''last'' PyNone) \<longrightarrow>
        get_last_price env io symbol mode = py_float (float_of_str env) (dict_get t ''last'' PyNone))
     \<and> (\<not> truthy (dict_get t ''last'' PyNone) \<and> truthy (dict_get t ''close'' PyNone) \<longrightarrow>
        get_last_price env io symbol mode = py_float (float_of_str env) (dict_get t ''close'' PyNone))
     \<and> (\<not> truthy (dict_get t ''last'' PyNone) \<and> \<not> truthy (dict_get t ''close'' PyNone)
          \<and> dict_get t ''info'' (PyDict []) = PyDict info \<longrightarrow>
        get_last_price env io symbol mode =
          (if dict_get info ''lastPrice'' PyNone = PyNone then Inl RuntimeError
           else py_float (float_of_str env) (dict_get info ''lastPrice'' PyNone)))
     \<and> (get_last_price env io symbol mode = Inl RuntimeError \<longleftrightarrow>
          \<not> truthy (dict_get t ''last'' PyNone) \<and> \<not> truthy (dict_get t ''close'' PyNone)
          \<and> (\<exists>i. dict_get t ''info'' (PyDict []) = PyDict i
                   \<and> dict_get i ''lastPrice'' PyNone = PyNone))"
proof (intro conjI impI)
  assume "truthy (dict_get t ''last'' PyNone)"
  then show "get_last_price env io symbol mode
               = py_float (float_of_str env) (dict_get t ''last'' PyNone)"
    using fetched by (auto simp: get_last_price_def last_or_close_or_info_def)
next
  assume "\<not> truthy (dict_get t ''last'' PyNone) \<and> truthy (dict_get t ''close'' PyNone)"
  then show "get_last_price env io symbol mode
               = py_float (float_of_str env) (dict_get t ''close'' PyNone)"
    using fetched by (auto simp: get_last_price_def last_or_close_or_info_def)
next
  assume "\<not> truthy (dict_get t ''last'' PyNone) \<and> \<not> truthy (dict_get t ''close'' PyNone)
            \<and> dict_get t ''info'' (PyDict []) = PyDict info"
  then show "get_last_price env io symbol mode =
               (if dict_get info ''lastPrice'' PyNone = PyNone then Inl RuntimeError
                else py_float (float_of_str env) (dict_get info ''lastPrice'' PyNone))"
    using fetched by (simp add: get_last_price_def last_or_close_or_info_def)
next
  show "get_last_price env io symbol mode = Inl RuntimeError \<longleftrightarrow>
          \<not> truthy (dict_get t ''last'' PyNone) \<and> \<not> truthy (dict_get t ''close'' PyNone)
          \<and> (\<exists>i. dict_get t ''info'' (PyDict []) = PyDict i
                   \<and> dict_get i ''lastPrice'' PyNone = PyNone)"
    using fetched
    by (auto simp: get_last_price_def last_or_close_or_info_def py_float_not_RuntimeError
             split: pyval.splits)
qed

theorem get_last_price_fallback_witness:
  "get_last_price btc_env
       \<lparr>fetch_ticker = (\<lambda>pair mode. Inr [(''last'', PyNum 0), (''close'', PyNum 42)]),
        time_time = 0, create_order = Inl (ExchangeError [])\<rparr> None None
     = Inr 42
   \<and> get_last_price btc_env
       \<lparr>fetch_ticker = (\<lambda>pair mode. Inr [(''last'', PyNum 7), (''close'', PyNum 42)]),
        time_time = 0, create_order = Inl (ExchangeError [])\<rparr> None None
     = Inr 7
   \<and> get_last_price btc_env
       \<lparr>fetch_ticker = (\<lambda>pair mode. Inr [(''last'', PyNum 0), (''info'', PyDict [])]),
        time_time = 0, create_order = Inl (ExchangeError [])\<rparr> None None
     = Inl RuntimeError"
proof -
  let ?io = "\<lambda>t. \<lparr>fetch_ticker = (\<lambda>pair mode. Inr t), time_time = 0,
                    create_order = Inl (ExchangeError [])\<rparr>"
  let ?t1 = "[(''last'', PyNum 0), (''close'', PyNum 42)]"
  let ?t2 = "[(''last'', PyNum 7), (''close'', PyNum 42)]"
  let ?t3 = "[(''last'', PyNum 0), (''info'', PyDict [])]"
  have "get_last_price btc_env (?io ?t1) None None = Inr 42"
    using get_last_price_fallback [of "?io ?t1" None btc_env None ?t1]
    by (simp add: dict_get_def)
  moreover have "get_last_price btc_env (?io ?t2) None None = Inr 7"
    using get_last_price_fallback [of "?io ?t2" None btc_env None ?t2]
    by (simp add: dict_get_def)
  moreover have "get_last_price btc_env (?io ?t3) None None = Inl RuntimeError"
    using get_last_price_fallback [of "?io ?t3" None btc_env None ?t3 "[]"]
    by (simp add: dict_get_def)
  ultimately show ?thesis by simp
qed

text \<open>
  C8 (as the claim states it, refuted). Two paper calls with the same side, amount,
  symbol, order type and explicit price return different fill records when the clock
  has moved between them: the record carries \<^verbatim>\<open>time.time()\<close>.
\<close>

theorem paper_fill_depends_on_clock:
  "execute_order btc_env (quote_io 30000 1) ''buy'' 1 None ''market'' (Some 30000) None
     \<noteq> execute_order btc_env (quote_io 30000 2) ''buy'' 1 None ''market'' (Some 30000) None"
  by (simp add: execute_order_def string_defs sample_defs)

text \<open>
  C8 (amended). In paper mode (any mode other than \<^verbatim>\<open>live\<close>) and with an explicit
  price, \<^verbatim>\<open>execute_order\<close> returns the paper record of the upper-cased pair, the side,
  the amount, the explicit price, the order type and the reading of the clock: it
  depends on nothing else of the outside, so two calls with equal arguments at equal
  clock readings return equal records. With no explicit price the fill price is what
  \<^verbatim>\<open>get_last_price\<close> returns for the pair, and its exception is propagated. In both
  cases the outcome of \<^verbatim>\<open>create_order\<close> plays no part.
\<close>

theorem paper_execute_order:
  assumes paper: "lower (str_or mode (DEFAULT_MODE env)) \<noteq> ''live''"
  shows
    "execute_order env io side amount symbol order_type (Some p) mode
       = Inr (PaperFill (upper (str_or symbol (DEFAULT_PAIR env))) side amount p order_type
                (time_time io))
     \<and> (time_time io' = time_time io \<longrightarrow>
          execute_order env io' side amount symbol order_type (Some p) mode
            = execute_order env io side amount symbol order_type (Some p) mode)
     \<and> execute_order env io side amount symbol order_type None mode
         = (case get_last_price env io (Some (upper (str_or symbol (DEFAULT_PAIR env))))
                  (Some (lower (str_or mode (DEFAULT_MODE env)))) of
              Inl e \<Rightarrow> Inl e
            | Inr px \<Rightarrow>
                Inr (PaperFill (upper (str_or symbol (DEFAULT_PAIR env))) side amount px order_type
                       (time_time io)))
     \<and> execute_order env (io\<lparr>create_order := v\<rparr>) side amount symbol order_type price mode
         = execute_order env io side amount symbol order_type price mode"
  using paper
  by (auto simp: execute_order_def get_last_price_def Let_def split: sum.splits option.splits)

theorem paper_execute_order_witness:
  "execute_order btc_env (quote_io 30000 5) ''buy'' 1 None ''market'' None None
     = Inr (PaperFill ''BTC/USDT'' ''buy'' 1 30000 ''market'' 5)
   \<and> execute_order btc_env (quote_io 30000 5) ''buy'' 1 (Some ''eth/usdt'') ''limit'' (Some 2500) None
     = Inr (PaperFill ''ETH/USDT'' ''buy'' 1 2500 ''limit'' 5)
   \<and> execute_order btc_env (quote_io 1 5) ''buy'' 1 (Some ''eth/usdt'') ''limit'' (Some 2500) None
     = execute_order btc_env (quote_io 30000 5) ''buy'' 1 (Some ''eth/usdt'') ''limit'' (Some 2500) None"
proof -
  have paper: "lower (str_or None (DEFAULT_MODE btc_env)) \<noteq> ''live''"
    by (simp add: string_defs btc_env_def)
  have px: "get_last_price btc_env (quote_io 30000 5)
              (Some (upper (str_or None (DEFAULT_PAIR btc_env))))
              (Some (lower (str_or None (DEFAULT_MODE btc_env)))) = Inr 30000"
    by (simp add: gateway_defs string_defs sample_defs)
  have pair: "upper (str_or None (DEFAULT_PAIR btc_env)) = ''BTC/USDT''"
    and eth: "upper (str_or (Some ''eth/usdt'') (DEFAULT_PAIR btc_env)) = ''ETH/USDT''"
    by (simp_all add: string_defs btc_env_def)
  have clock: "time_time (quote_io 1 5) = time_time (quote_io 30000 5)"
    and five: "time_time (quote_io 30000 5) = 5"
    by (simp_all add: quote_io_def)
  from paper_execute_order [OF paper, of "quote_io 30000 5" "''buy''" 1 None "''market''"] px pair five
  have "execute_order btc_env (quote_io 30000 5) ''buy'' 1 None ''market'' None None
          = Inr (PaperFill ''BTC/USDT'' ''buy'' 1 30000 ''market'' 5)"
    by simp
  moreover
  from paper_execute_order
         [OF paper, of "quote_io 30000 5" "''buy''" 1 "Some ''eth/usdt''" "''limit''" 2500
            "quote_io 1 5"]
       eth five clock
  have "execute_order btc_env (quote_io 30000 5) ''buy'' 1 (Some ''eth/usdt'') ''limit'' (Some 2500) None
          = Inr (PaperFill ''ETH/USDT'' ''buy'' 1 2500 ''limit'' 5)"
    and "execute_order btc_env (quote_io 1 5) ''buy'' 1 (Some ''eth/usdt'') ''limit'' (Some 2500) None
          = execute_order btc_env (quote_io 30000 5) ''buy'' 1 (Some ''eth/usdt'') ''limit''
              (Some 2500) None"
    by simp_all
  ultimately show ?thesis by simp
qed

subsection \<open>Appending to the ledger\<close>

lemma ledger_append_record:
  "files st' = append_record sg r (files st) \<Longrightarrow>
     ledger st' sg' = (if sg' = sg then ledger st sg @ [Rec r] else ledger st sg')"
  by (simp add: ledger_def append_record_def)

lemma on_date_snoc:
  "on_date d (ls @ [Rec r]) = on_date d ls @ (if r_date r = Some d then [r] else [])"
  by (simp add: on_date_def parsed_append)

lemma ids_on_snoc:
  "ids_on d (ls @ [Rec r]) = ids_on d ls @ (if r_date r = Some d then [rec_id r] else [])"
  by (simp add: ids_on_def on_date_snoc)

text \<open>After a record of the date with the next id is appended, it is the latest.\<close>

lemma get_latest_after_append:
  assumes latest: "get_latest_position d sg fs = Inr (p, i)"
    and r: "r_date r = Some d" "rec_id r = i + 1"
  shows "get_latest_position d sg (append_record sg r fs) = Inr (rec_positions r, i + 1)"
proof (cases "fs sg")
  case None
  with latest have "i = - 1" by (simp add: get_latest_position_def)
  with None r show ?thesis by (simp add: get_latest_position_def append_record_def)
next
  case (Some ls)
  from latest Some obtain lp mx where sc: "scan d ls ([], - 1) = Inr (lp, mx)"
    by (cases "scan d ls ([], - 1)") (auto simp: get_latest_position_def)
  have "mx < i + 1"
  proof (cases "0 \<le> mx")
    case True
    with latest Some sc show ?thesis by (simp add: get_latest_position_def)
  next
    case False
    with latest Some sc obtain prev where "scan prev ls ([], - 1) = Inr (p, i)"
      by (auto simp: get_latest_position_def split: sum.splits)
    then have "- 1 \<le> i" by (rule scan_ge)
    with False show ?thesis by simp
  qed
  moreover from sc have "- 1 \<le> mx" by (rule scan_ge)
  ultimately show ?thesis
    using Some sc r
    by (simp add: get_latest_position_def append_record_def scan_append)
qed

subsection \<open>No-trade records\<close>

text \<open>
  C7. When the latest snapshot for the agent and the date is \<open>(p, i)\<close>, two calls of
  \<^verbatim>\<open>add_no_trade_record\<close> in a row both return, and append two no-trade records of the
  date with ids \<open>i + 1\<close> and \<open>i + 2\<close> whose positions are both \<open>p\<close>; after the first
  call the latest snapshot is \<open>(p, i + 1)\<close>.
\<close>

theorem no_trade_twice_same_positions:
  assumes latest: "get_latest_position today_date signature (files st) = Inr (p, i)"
  shows
    "fst (add_no_trade_record today_date signature st) = Inr ()
     \<and> get_latest_position today_date signature
          (files (snd (add_no_trade_record today_date signature st))) = Inr (p, i + 1)
     \<and> fst (add_no_trade_record today_date signature
              (snd (add_no_trade_record today_date signature st))) = Inr ()
     \<and> ledger (snd (add_no_trade_record today_date signature
                      (snd (add_no_trade_record today_date signature st)))) signature
         = ledger st signature
           @ [Rec \<lparr>r_date = Some today_date, r_id = Some (i + 1),
                   r_this_action = Some \<lparr>a_action = ''no_trade'', a_symbol = [], a_amount = 0,
                                          a_fill_price = None\<rparr>,
                   r_positions = Some p, r_order = None\<rparr>,
              Rec \<lparr>r_date = Some today_date, r_id = Some (i + 2),
                   r_this_action = Some \<lparr>a_action = ''no_trade'', a_symbol = [], a_amount = 0,
                                          a_fill_price = None\<rparr>,
                   r_positions = Some p, r_order = None\<rparr>]"
proof -
  let ?r1 = "\<lparr>r_date = Some today_date, r_id = Some (i + 1),
              r_this_action = Some \<lparr>a_action = ''no_trade'', a_symbol = [], a_amount = 0,
                                     a_fill_price = None\<rparr>,
              r_positions = Some p, r_order = None\<rparr>"
  let ?r2 = "\<lparr>r_date = Some today_date, r_id = Some (i + 1 + 1),
              r_this_action = Some \<lparr>a_action = ''no_trade'', a_symbol = [], a_amount = 0,
                                     a_fill_price = None\<rparr>,
              r_positions = Some p, r_order = None\<rparr>"
  let ?st1 = "st\<lparr>files := append_record signature ?r1 (files st)\<rparr>"
  let ?st2 = "?st1\<lparr>files := append_record signature ?r2 (files ?st1)\<rparr>"
  from latest have one: "add_no_trade_record today_date signature st = (Inr (), ?st1)"
    by (simp add: add_no_trade_record_def)
  have "get_latest_position today_date signature (append_record signature ?r1 (files st))
          = Inr (rec_positions ?r1, i + 1)"
    using latest by (rule get_latest_after_append) (simp_all add: rec_id_def)
  then have latest1: "get_latest_position today_date signature (files ?st1) = Inr (p, i + 1)"
    by (simp add: rec_positions_def)
  then have two: "add_no_trade_record today_date signature ?st1 = (Inr (), ?st2)"
    by (simp add: add_no_trade_record_def)
  have "ledger ?st2 signature = ledger st signature @ [Rec ?r1, Rec ?r2]"
    by (simp add: ledger_def append_record_def)
  with one two latest1 show ?thesis by (simp add: add.assoc)
qed

theorem no_trade_twice_same_positions_witness:
  "ledger (snd (add_no_trade_record ''2024-01-03'' ''agent''
                  (snd (add_no_trade_record ''2024-01-03'' ''agent''
                          \<lparr>files = [''agent'' \<mapsto> [snapshot ''2024-01-02'' 3
                                                      [(''CASH'', 5000), (''BTC'', 1 / 10)]]],
                           IF_TRADE = False\<rparr>)))) ''agent''
     = [snapshot ''2024-01-02'' 3 [(''CASH'', 5000), (''BTC'', 1 / 10)],
        Rec \<lparr>r_date = Some ''2024-01-03'', r_id = Some 4,
             r_this_action = Some \<lparr>a_action = ''no_trade'', a_symbol = [], a_amount = 0,
                                    a_fill_price = None\<rparr>,
             r_positions = Some [(''CASH'', 5000), (''BTC'', 1 / 10)], r_order = None\<rparr>,
        Rec \<lparr>r_date = Some ''2024-01-03'', r_id = Some 5,
             r_this_action = Some \<lparr>a_action = ''no_trade'', a_symbol = [], a_amount = 0,
                                    a_fill_price = None\<rparr>,
             r_positions = Some [(''CASH'', 5000), (''BTC'', 1 / 10)], r_order = None\<rparr>]"
proof -
  let ?p = "[(''CASH'', 5000), (''BTC'', 1 / 10)] :: position"
  let ?st = "\<lparr>files = [''agent'' \<mapsto> [snapshot ''2024-01-02'' 3 ?p]], IF_TRADE = False\<rparr>"
  have latest: "get_latest_position ''2024-01-03'' ''agent'' (files ?st) = Inr (?p, 3)"
    by (simp add: ledger_defs date_defs sample_defs)
  have "ledger ?st ''agent'' = [snapshot ''2024-01-02'' 3 ?p]"
    by (simp add: ledger_def)
  with no_trade_twice_same_positions [OF latest] show ?thesis by simp
qed

subsection \<open>Record ids\<close>

lemma consecutive_snoc:
  "consecutive (xs @ [x]) \<longleftrightarrow> consecutive xs \<and> (xs = [] \<or> x = last xs + 1)"
  by (induction xs rule: consecutive.induct) auto

lemma consecutive_le_last: "consecutive (x # xs) \<Longrightarrow> x \<le> last (x # xs)"
proof (induction xs arbitrary: x)
  case Nil
  then show ?case by simp
next
  case (Cons y ys)
  from Cons.prems have y: "y = x + 1" and c: "consecutive (y # ys)" by auto
  from c have "y \<le> last (y # ys)" by (rule Cons.IH)
  with y have "x \<le> last (y # ys)" by linarith
  then show ?case by simp
qed

lemma consecutive_Max: "consecutive xs \<Longrightarrow> xs \<noteq> [] \<Longrightarrow> Max (set xs) = last xs"
proof (induction xs rule: consecutive.induct)
  case 1
  then show ?case by simp
next
  case (2 x)
  then show ?case by simp
next
  case (3 x y ys)
  from "3.prems" have c: "consecutive (y # ys)" and y: "y = x + 1" by auto
  from c have m: "Max (set (y # ys)) = last (y # ys)" by (rule "3.IH") simp
  from c have "y \<le> last (y # ys)" by (rule consecutive_le_last)
  with y have le: "x \<le> last (y # ys)" by linarith
  have "Max (set (x # y # ys)) = max x (Max (set (y # ys)))" by simp
  also have "\<dots> = max x (last (y # ys))" by (simp only: m)
  also have "\<dots> = last (y # ys)" using le by (simp only: max_absorb2)
  finally show ?case by simp
qed

text \<open>What \<^verbatim>\<open>get_latest_position\<close> returns as last id, on a ledger whose ids have no gap.\<close>

lemma latest_id:
  assumes latest: "get_latest_position d sg (files st) = Inr (p, i)"
  shows "- 1 \<le> i"
    and "ids_ok d (ledger st sg) \<Longrightarrow> ids_on d (ledger st sg) \<noteq> [] \<Longrightarrow>
           i = last (ids_on d (ledger st sg))"
    and "ids_on d (ledger st sg) = [] \<Longrightarrow>
           (files st sg = None \<and> i = - 1)
           \<or> (\<exists>prev. get_yesterday_date d = Inr prev
                  \<and> i = Max (insert (- 1) (set (ids_on prev (ledger st sg)))))"
proof -
  show "- 1 \<le> i"
    using latest
    by (auto simp: get_latest_position_def split: option.splits sum.splits if_splits
             dest: scan_ge)
next
  assume ok: "ids_ok d (ledger st sg)" and ne: "ids_on d (ledger st sg) \<noteq> []"
  from ne obtain ls where ls: "files st sg = Some ls"
    by (cases "files st sg") (auto simp: ledger_def ids_on_def on_date_def)
  with latest obtain lp mx where sc: "scan d ls ([], - 1) = Inr (lp, mx)"
    by (cases "scan d ls ([], - 1)") (auto simp: get_latest_position_def)
  from ls have led: "ledger st sg = ls" by (simp add: ledger_def)
  from sc have mx: "mx = Max (insert (- 1) (set (ids_on d ls)))" by (rule scan_max_id)
  from ok ne led have m: "Max (set (ids_on d ls)) = last (ids_on d ls)"
    by (simp add: ids_ok_def consecutive_Max)
  from ok ne led have "0 \<le> last (ids_on d ls)"
    by (simp add: ids_ok_def list_all_iff)
  moreover from ne led have "Max (insert (- 1) (set (ids_on d ls))) = max (- 1) (Max (set (ids_on d ls)))"
    by simp
  ultimately have "mx = last (ids_on d ls)" "0 \<le> mx" using mx m by simp_all
  with latest ls sc led show "i = last (ids_on d (ledger st sg))"
    by (simp add: get_latest_position_def)
next
  assume em: "ids_on d (ledger st sg) = []"
  show "(files st sg = None \<and> i = - 1)
          \<or> (\<exists>prev. get_yesterday_date d = Inr prev
                 \<and> i = Max (insert (- 1) (set (ids_on prev (ledger st sg)))))"
  proof (cases "files st sg")
    case None
    with latest show ?thesis by (simp add: get_latest_position_def)
  next
    case (Some ls)
    then have led: "ledger st sg = ls" by (simp add: ledger_def)
    from latest Some obtain lp mx where sc: "scan d ls ([], - 1) = Inr (lp, mx)"
      by (cases "scan d ls ([], - 1)") (auto simp: get_latest_position_def)
    from sc have "mx = Max (insert (- 1) (set (ids_on d ls)))" by (rule scan_max_id)
    with em led have "mx = - 1" by simp
    with latest Some sc obtain prev where prev: "get_yesterday_date d = Inr prev"
      and "scan prev ls ([], - 1) = Inr (p, i)"
      by (auto simp: get_latest_position_def split: sum.splits)
    then have "i = Max (insert (- 1) (set (ids_on prev ls)))" by (auto dest: scan_max_id)
    with prev led show ?thesis by simp
  qed
qed

text \<open>Appending the record with the next id keeps the ids of every date without gap.\<close>

lemma append_keeps_ids_ok:
  assumes inv: "ids_ok d' (ledger st sg')"
    and latest: "get_latest_position d sg (files st) = Inr (p, i)"
    and ok: "ids_ok d (ledger st sg)"
    and r: "r_date r = Some d" "r_id r = Some (i + 1)"
    and st': "files st' = append_record sg r (files st)"
  shows "ids_ok d' (ledger st' sg')"
proof (cases "sg' = sg \<and> d' = d")
  case False
  with inv r st' show ?thesis
    by (auto simp: ledger_append_record ids_ok_def ids_on_snoc)
next
  case True
  from latest have "- 1 \<le> i" by (rule latest_id(1))
  moreover have "ids_on d (ledger st sg) \<noteq> [] \<Longrightarrow> i = last (ids_on d (ledger st sg))"
    using latest ok by (rule latest_id(2))
  ultimately show ?thesis
    using True ok r st'
    by (auto simp: ledger_append_record ids_ok_def ids_on_snoc consecutive_snoc rec_id_def)
qed

text \<open>A call leaves the files as they are or appends one record with the next id.\<close>

lemma run_order_files:
  "(\<exists>p i r. files (snd (run_order env io1 io2 side amount sg d order_type st))
             = append_record sg r (files st)
         \<and> get_latest_position d sg (files st) = Inr (p, i)
         \<and> r_date r = Some d \<and> r_id r = Some (i + 1))
   \<or> files (snd (run_order env io1 io2 side amount sg d order_type st)) = files st"
proof (cases "get_latest_position d sg (files st)")
  case (Inl e)
  then show ?thesis by (simp add: run_order_def)
next
  case (Inr pi)
  then obtain p i where latest: "get_latest_position d sg (files st) = Inr (p, i)"
    by (cases pi) simp
  show ?thesis
  proof (cases "get_last_price env io1 None None")
    case (Inl e)
    with latest show ?thesis by (simp add: run_order_def Let_def)
  next
    case px: (Inr px)
    show ?thesis
    proof (cases "execute_order env io2 side amount None order_type None None")
      case (Inl e)
      with latest px show ?thesis by (simp add: run_order_def Let_def)
    next
      case order: (Inr order)
      let ?run = "run_order env io1 io2 side amount sg d order_type st"
      let ?R = "\<lambda>pos'. \<lparr>r_date = Some d, r_id = Some (i + 1),
                  r_this_action = Some \<lparr>a_action = side, a_symbol = BASE_SYMBOL env,
                                         a_amount = amount,
                                         a_fill_price = Some (order_fill_price order px)\<rparr>,
                  r_positions = Some pos', r_order = Some order\<rparr>"
      have "files (snd ?run) = files st \<or> (\<exists>pos'. files (snd ?run) = append_record sg (?R pos') (files st))"
      proof (cases "side = ''buy''")
        case True
        show ?thesis
        proof (cases "pos_get (seeded env p) ''CASH'' - order_fill_price order px * amount < 0")
          case True
          with \<open>side = ''buy''\<close> latest px order have "files (snd ?run) = files st"
            by (simp add: run_order_def Let_def)
          then show ?thesis ..
        next
          case False
          with \<open>side = ''buy''\<close> latest px order
          have "\<exists>pos'. files (snd ?run) = append_record sg (?R pos') (files st)"
            by (simp add: run_order_def Let_def) (rule exI, rule refl)
          then show ?thesis ..
        qed
      next
        case False
        show ?thesis
        proof (cases "pos_get (seeded env p) (BASE_SYMBOL env) < amount")
          case True
          with \<open>side \<noteq> ''buy''\<close> latest px order have "files (snd ?run) = files st"
            by (simp add: run_order_def Let_def)
          then show ?thesis ..
        next
          case False
          with \<open>side \<noteq> ''buy''\<close> latest px order
          have "\<exists>pos'. files (snd ?run) = append_record sg (?R pos') (files st)"
            by (simp add: run_order_def Let_def) (rule exI, rule refl)
          then show ?thesis ..
        qed
      qed
      then show ?thesis
      proof
        assume "files (snd ?run) = files st"
        then show ?thesis ..
      next
        assume "\<exists>pos'. files (snd ?run) = append_record sg (?R pos') (files st)"
        then obtain pos' where "files (snd ?run) = append_record sg (?R pos') (files st)" ..
        moreover have "r_date (?R pos') = Some d" "r_id (?R pos') = Some (i + 1)" by simp_all
        ultimately show ?thesis using latest by blast
      qed
    qed
  qed
qed

lemma add_no_trade_record_files:
  "(\<exists>p i r. files (snd (add_no_trade_record d sg st)) = append_record sg r (files st)
         \<and> get_latest_position d sg (files st) = Inr (p, i)
         \<and> r_date r = Some d \<and> r_id r = Some (i + 1))
   \<or> files (snd (add_no_trade_record d sg st)) = files st"
proof (cases "get_latest_position d sg (files st)")
  case (Inl e)
  then show ?thesis by (simp add: add_no_trade_record_def)
next
  case (Inr pi)
  then obtain p i where latest: "get_latest_position d sg (files st) = Inr (p, i)"
    by (cases pi) simp
  let ?r = "\<lparr>r_date = Some d, r_id = Some (i + 1),
             r_this_action = Some \<lparr>a_action = ''no_trade'', a_symbol = [], a_amount = 0,
                                    a_fill_price = None\<rparr>,
             r_positions = Some p, r_order = None\<rparr>"
  from latest have "files (snd (add_no_trade_record d sg st)) = append_record sg ?r (files st)"
    by (simp add: add_no_trade_record_def)
  moreover have "r_date ?r = Some d" "r_id ?r = Some (i + 1)" by simp_all
  ultimately show ?thesis using latest by blast
qed

lemma step_files:
  "(\<exists>sg d p i r. files (step env c st) = append_record sg r (files st)
         \<and> get_latest_position d sg (files st) = Inr (p, i)
         \<and> r_date r = Some d \<and> r_id r = Some (i + 1))
   \<or> files (step env c st) = files st"
proof (cases c)
  case (BuyCall io1 io2 s d amount)
  show ?thesis
  proof (cases "falsy_str s \<or> falsy_str d \<or> amount \<le> 0")
    case True
    with BuyCall have "files (step env c st) = files st" by (auto simp: buy_def)
    then show ?thesis ..
  next
    case False
    with BuyCall have "step env c st
        = snd (run_order env io1 io2 ''buy'' amount (the s) (the d) ''market'' st)"
      by (simp add: buy_def)
    with run_order_files [of env io1 io2 "''buy''" amount "the s" "the d" "''market''" st]
    show ?thesis by metis
  qed
next
  case (SellCall io1 io2 s d amount)
  show ?thesis
  proof (cases "falsy_str s \<or> falsy_str d \<or> amount \<le> 0")
    case True
    with SellCall have "files (step env c st) = files st" by (auto simp: sell_def)
    then show ?thesis ..
  next
    case False
    with SellCall have "step env c st
        = snd (run_order env io1 io2 ''sell'' amount (the s) (the d) ''market'' st)"
      by (simp add: sell_def)
    with run_order_files [of env io1 io2 "''sell''" amount "the s" "the d" "''market''" st]
    show ?thesis by metis
  qed
next
  case (NoTradeCall d sg)
  then have "step env c st = snd (add_no_trade_record d sg st)" by simp
  with add_no_trade_record_files [of d sg st] show ?thesis by metis
qed

lemma ledger_files_cong: "files st' = files st \<Longrightarrow> ledger st' sg = ledger st sg"
  by (simp add: ledger_def)

lemma step_keeps_ids_ok:
  assumes inv: "\<And>sg d. ids_ok d (ledger st sg)"
  shows "ids_ok d (ledger (step env c st) sg)"
  using step_files [of env c st]
proof (elim disjE exE conjE)
  assume "files (step env c st) = files st"
  then have "ledger (step env c st) sg = ledger st sg" by (rule ledger_files_cong)
  with inv [of d sg] show ?thesis by simp
next
  fix sg' d' p i r
  assume st': "files (step env c st) = append_record sg' r (files st)"
    and latest: "get_latest_position d' sg' (files st) = Inr (p, i)"
    and r: "r_date r = Some d'" "r_id r = Some (i + 1)"
  from inv [of d sg] latest inv [of d' sg'] r st' show ?thesis
    by (rule append_keeps_ids_ok)
qed

lemma run_keeps_ids_ok:
  assumes inv: "\<And>sg d. ids_ok d (ledger st sg)"
  shows "ids_ok d (ledger (run env cs st) sg)"
  using inv
proof (induction cs arbitrary: st)
  case Nil
  then show ?case by simp
next
  case (Cons c cs)
  have "\<And>sg d. ids_ok d (ledger (step env c st) sg)"
    using Cons.prems by (rule step_keeps_ids_ok)
  then have "ids_ok d (ledger (run env cs (step env c st)) sg)"
    by (rule Cons.IH)
  then show ?case by simp
qed

text \<open>
  C6. Start from a state in which, for every agent and date, the ids of the records of
  that date are consecutive and not negative (the state with no file is one). Then
  after any sequence of \<^verbatim>\<open>buy\<close>, \<^verbatim>\<open>sell\<close> and \<^verbatim>\<open>add_no_trade_record\<close> calls the ids of
  every date are still consecutive and not negative. A single call leaves an
  agent's ledger as it is or appends one record of its date \<open>d'\<close> whose id is the last
  id returned by \<^verbatim>\<open>get_latest_position\<close> plus one: the last id of \<open>d'\<close> plus one when
  \<open>d'\<close> has records, else the maximum id of the preceding day plus one, or 0 when that
  day has no record or the agent has no file.
\<close>

theorem record_ids_gap_free:
  assumes inv: "\<And>sg d. ids_ok d (ledger st sg)"
  shows
    "ids_ok d (ledger (run env cs st) sg)
     \<and> (ledger (step env c st) sg = ledger st sg
        \<or> (\<exists>d' p i r.
              ledger (step env c st) sg = ledger st sg @ [Rec r]
              \<and> get_latest_position d' sg (files st) = Inr (p, i)
              \<and> r_date r = Some d' \<and> r_id r = Some (i + 1)
              \<and> (ids_on d' (ledger st sg) \<noteq> [] \<longrightarrow> i = last (ids_on d' (ledger st sg)))
              \<and> (ids_on d' (ledger st sg) = [] \<longrightarrow>
                   (files st sg = None \<and> i = - 1)
                   \<or> (\<exists>prev. get_yesterday_date d' = Inr prev
                          \<and> i = Max (insert (- 1) (set (ids_on prev (ledger st sg))))))))"
proof
  show "ids_ok d (ledger (run env cs st) sg)"
    using inv by (rule run_keeps_ids_ok)
next
  from step_files [of env c st]
  show "ledger (step env c st) sg = ledger st sg
        \<or> (\<exists>d' p i r.
              ledger (step env c st) sg = ledger st sg @ [Rec r]
              \<and> get_latest_position d' sg (files st) = Inr (p, i)
              \<and> r_date r = Some d' \<and> r_id r = Some (i + 1)
              \<and> (ids_on d' (ledger st sg) \<noteq> [] \<longrightarrow> i = last (ids_on d' (ledger st sg)))
              \<and> (ids_on d' (ledger st sg) = [] \<longrightarrow>
                   (files st sg = None \<and> i = - 1)
                   \<or> (\<exists>prev. get_yesterday_date d' = Inr prev
                          \<and> i = Max (insert (- 1) (set (ids_on prev (ledger st sg)))))))"
  proof (elim disjE exE conjE)
    assume "files (step env c st) = files st"
    then have "ledger (step env c st) sg = ledger st sg" by (rule ledger_files_cong)
    then show ?thesis ..
  next
    fix sg' d' p i r
    assume st': "files (step env c st) = append_record sg' r (files st)"
      and latest: "get_latest_position d' sg' (files st) = Inr (p, i)"
      and r: "r_date r = Some d'" "r_id r = Some (i + 1)"
    show ?thesis
    proof (cases "sg = sg'")
      case False
      with st' have "ledger (step env c st) sg = ledger st sg"
        by (simp add: ledger_append_record)
      then show ?thesis ..
    next
      case True
      with st' have app: "ledger (step env c st) sg = ledger st sg @ [Rec r]"
        by (simp add: ledger_append_record)
      from latest True have l: "get_latest_position d' sg (files st) = Inr (p, i)" by simp
      have a: "ids_on d' (ledger st sg) \<noteq> [] \<longrightarrow> i = last (ids_on d' (ledger st sg))"
        by (rule impI) (rule latest_id(2) [OF l inv])
      have b: "ids_on d' (ledger st sg) = [] \<longrightarrow>
                 (files st sg = None \<and> i = - 1)
                 \<or> (\<exists>prev. get_yesterday_date d' = Inr prev
                        \<and> i = Max (insert (- 1) (set (ids_on prev (ledger st sg)))))"
        by (rule impI) (rule latest_id(3) [OF l])
      have "ledger (step env c st) sg = ledger st sg @ [Rec r]
              \<and> get_latest_position d' sg (files st) = Inr (p, i)
              \<and> r_date r = Some d' \<and> r_id r = Some (i + 1)
              \<and> (ids_on d' (ledger st sg) \<noteq> [] \<longrightarrow> i = last (ids_on d' (ledger st sg)))
              \<and> (ids_on d' (ledger st sg) = [] \<longrightarrow>
                   (files st sg = None \<and> i = - 1)
                   \<or> (\<exists>prev. get_yesterday_date d' = Inr prev
                          \<and> i = Max (insert (- 1) (set (ids_on prev (ledger st sg))))))"
        apply (intro conjI)
        apply (rule app)
        apply (rule l)
        apply (rule r(1))
        apply (rule r(2))
        apply (rule a)
        apply (rule b)
        done
      then show ?thesis
        apply -
        apply (rule disjI2)
        apply (rule exI)+
        apply assumption
        done
    qed
  qed
qed

theorem record_ids_gap_free_witness:
  "ids_ok ''2024-01-02''
     (ledger (run btc_env [BuyCall (quote_io 50000 0) (quote_io 50000 7) (Some ''agent'')
                             (Some ''2024-01-02'') (1 / 10),
                           NoTradeCall ''2024-01-02'' ''agent'',
                           NoTradeCall ''2024-01-03'' ''agent'']
                \<lparr>files = [''agent'' \<mapsto> [snapshot ''2024-01-01'' 0 [(''CASH'', 10000)]]],
                 IF_TRADE = False\<rparr>) ''agent'')
   \<and> ids_on ''2024-01-02''
       (ledger (run btc_env [BuyCall (quote_io 50000 0) (quote_io 50000 7) (Some ''agent'')
                               (Some ''2024-01-02'') (1 / 10),
                             NoTradeCall ''2024-01-02'' ''agent'',
                             NoTradeCall ''2024-01-03'' ''agent'']
                  \<lparr>files = [''agent'' \<mapsto> [snapshot ''2024-01-01'' 0 [(''CASH'', 10000)]]],
                   IF_TRADE = False\<rparr>) ''agent'') = [1, 2]
   \<and> ids_on ''2024-01-03''
       (ledger (run btc_env [BuyCall (quote_io 50000 0) (quote_io 50000 7) (Some ''agent'')
                               (Some ''2024-01-02'') (1 / 10),
                             NoTradeCall ''2024-01-02'' ''agent'',
                             NoTradeCall ''2024-01-03'' ''agent'']
                  \<lparr>files = [''agent'' \<mapsto> [snapshot ''2024-01-01'' 0 [(''CASH'', 10000)]]],
                   IF_TRADE = False\<rparr>) ''agent'') = [3]"
proof -
  let ?c1 = "BuyCall (quote_io 50000 0) (quote_io 50000 7) (Some ''agent'') (Some ''2024-01-02'')
               (1 / 10)"
  let ?c2 = "NoTradeCall ''2024-01-02'' ''agent''"
  let ?c3 = "NoTradeCall ''2024-01-03'' ''agent''"
  let ?r0 = "snapshot ''2024-01-01'' 0 [(''CASH'', 10000)]"
  let ?r1 = "Rec \<lparr>r_date = Some ''2024-01-02'', r_id = Some 1,
                  r_this_action = Some \<lparr>a_action = ''buy'', a_symbol = ''BTC'', a_amount = 1 / 10,
                                         a_fill_price = Some 50000\<rparr>,
                  r_positions = Some [(''CASH'', 5000), (''BTC'', 1 / 10)],
                  r_order = Some (PaperFill ''BTC/USDT'' ''buy'' (1 / 10) 50000 ''market'' 7)\<rparr>"
  let ?r2 = "Rec \<lparr>r_date = Some ''2024-01-02'', r_id = Some 2,
                  r_this_action = Some \<lparr>a_action = ''no_trade'', a_symbol = [], a_amount = 0,
                                         a_fill_price = None\<rparr>,
                  r_positions = Some [(''CASH'', 5000), (''BTC'', 1 / 10)], r_order = None\<rparr>"
  let ?r3 = "Rec \<lparr>r_date = Some ''2024-01-03'', r_id = Some 3,
                  r_this_action = Some \<lparr>a_action = ''no_trade'', a_symbol = [], a_amount = 0,
                                         a_fill_price = None\<rparr>,
                  r_positions = Some [(''CASH'', 5000), (''BTC'', 1 / 10)], r_order = None\<rparr>"
  let ?st0 = "\<lparr>files = [''agent'' \<mapsto> [?r0]], IF_TRADE = False\<rparr>"
  let ?st1 = "\<lparr>files = [''agent'' \<mapsto> [?r0, ?r1]], IF_TRADE = True\<rparr>"
  let ?st2 = "\<lparr>files = [''agent'' \<mapsto> [?r0, ?r1, ?r2]], IF_TRADE = True\<rparr>"
  let ?st3 = "\<lparr>files = [''agent'' \<mapsto> [?r0, ?r1, ?r2, ?r3]], IF_TRADE = True\<rparr>"
  have inv: "\<And>sg d. ids_ok d (ledger ?st0 sg)"
    by (simp add: ids_ok_def ids_on_def on_date_def ledger_def snapshot_def rec_id_def)
  have s1: "step btc_env ?c1 ?st0 = ?st1"
    by (simp add: buy_def settle_defs ledger_defs gateway_defs string_defs date_defs sample_defs)
  have s2: "step btc_env ?c2 ?st1 = ?st2"
    by (simp add: add_no_trade_record_def ledger_defs sample_defs)
  have s3: "step btc_env ?c3 ?st2 = ?st3"
    by (simp add: add_no_trade_record_def ledger_defs date_defs sample_defs)
  have fin: "run btc_env [?c1, ?c2, ?c3] ?st0 = ?st3"
    by (simp only: run.simps s1 s2 s3)
  have "ids_ok ''2024-01-02'' (ledger (run btc_env [?c1, ?c2, ?c3] ?st0) ''agent'')"
    using record_ids_gap_free
            [OF inv, where d = "''2024-01-02''" and env = btc_env and cs = "[?c1, ?c2, ?c3]"
               and sg = "''agent''"]
    by simp
  moreover
  have "ids_on ''2024-01-02'' (ledger ?st3 ''agent'') = [1, 2]"
    and "ids_on ''2024-01-03'' (ledger ?st3 ''agent'') = [3]"
    by (simp_all add: ids_on_def on_date_def rec_id_def ledger_def snapshot_def)
  ultimately show ?thesis by (simp only: fin)
qed

end
